theory Spec2Isabelle
  imports Main "HOL-Library.Word" "HOL-Library.AList"
begin

section \<open>Go runtime notions used by the SDK\<close>

text \<open>
  A Go function either returns or panics.  Goroutine bodies and methods that can panic
  (closing a closed channel, sending on a closed channel, a nil reader) return an
  \<open>outcome\<close> next to the state they leave behind.
\<close>

datatype 'r outcome = Return 'r | Panic string

text \<open>
  \<open>fmt.Sprintf("%d", n)\<close> for a Go \<open>int\<close> (64 bits, two's complement, wrapping on
  overflow): an optional minus sign and the decimal digits.
\<close>

definition digit_char :: "nat \<Rightarrow> char" where
  "digit_char d = ''0123456789'' ! d"

fun digits :: "nat \<Rightarrow> string" where
  "digits n = (if n < 10 then [digit_char n] else digits (n div 10) @ [digit_char (n mod 10)])"

declare digits.simps [simp del]

definition Sprintf_d :: "64 word \<Rightarrow> string" where
  "Sprintf_d w = (if sint w < 0 then CHR ''-'' # digits (nat (- sint w)) else digits (nat (sint w)))"

text \<open>
  A buffered channel as its consumer sees it: the values sent so far, in order, and whether
  it has been closed.  The consumer is taken to drain it, so that a send on an open channel
  goes through; a send on a closed channel panics, and so does closing it twice.
\<close>

record 'a chan =
  buf :: "'a list"
  closed :: bool

definition make_chan :: "'a chan" where
  "make_chan = \<lparr>buf = [], closed = False\<rparr>"

definition chan_send :: "'a \<Rightarrow> 'a chan \<Rightarrow> 'a chan option" where
  "chan_send v c = (if closed c then None else Some (c\<lparr>buf := buf c @ [v]\<rparr>))"

definition chan_close :: "'a chan \<Rightarrow> 'a chan option" where
  "chan_close c = (if closed c then None else Some (c\<lparr>closed := True\<rparr>))"

text \<open>
  A \<open>context.Context\<close> with its cancel function, as the goroutine that looks at it sees
  it.  \<open>None\<close>: it is not cancelled, and no other goroutine cancels it during the run.
  \<open>Some n\<close>: another goroutine cancels it meanwhile; the next \<open>n\<close> looks at
  \<open>ctx.Done()\<close> still find it open, every later one finds it closed.  \<open>cancel()\<close> makes it
  \<open>Some 0\<close>.
\<close>

type_synonym ctx = "nat option"

definition ctx_Done :: "ctx \<Rightarrow> bool" where
  "ctx_Done c = (c = Some 0)"

definition ctx_tick :: "ctx \<Rightarrow> ctx" where
  "ctx_tick c = (case c of None \<Rightarrow> None | Some n \<Rightarrow> Some (n - 1))"

definition cancel :: "ctx \<Rightarrow> ctx" where
  "cancel c = Some 0"

section \<open>Package errors\<close>

text \<open>
  The error values of package \<open>errors\<close> that the transport and the read loop build,
  \<open>EOF\<close> for \<open>io.EOF\<close>, and \<open>StdError\<close> for any other error of the standard library,
  known by its message.  \<open>Error\<close> is the \<open>Error()\<close> method; \<open>%v\<close> of a nil cause prints \<open><nil>\<close>.
\<close>

datatype error =
    EOF
  | StdError string
  | CLINotFoundError string
  | CLIConnectionError string "error option"
  | ProcessError string "64 word" string
  | JSONDecodeError string string "error option"

fun Error :: "error \<Rightarrow> string" where
  "Error EOF = ''EOF''"
| "Error (StdError message) = message"
| "Error (CLINotFoundError message) = message"
| "Error (CLIConnectionError message cause) =
     (case cause of Some c \<Rightarrow> message @ '': '' @ Error c | None \<Rightarrow> message)"
| "Error (ProcessError message exitCode stderr_text) =
     (if stderr_text \<noteq> []
      then message @ '' (exit code: '' @ Sprintf_d exitCode @ ''): '' @ stderr_text
      else message @ '' (exit code: '' @ Sprintf_d exitCode @ '')'')"
| "Error (JSONDecodeError message raw cause) =
     (let shown = (case cause of Some c \<Rightarrow> Error c | None \<Rightarrow> ''<nil>'')
      in if raw \<noteq> [] then message @ '': '' @ shown @ '' (line: '' @ raw @ '')''
         else message @ '': '' @ shown)"

definition NewCLINotFoundError :: "string \<Rightarrow> error" where
  "NewCLINotFoundError message = CLINotFoundError message"

definition NewProcessError :: "string \<Rightarrow> 64 word \<Rightarrow> string \<Rightarrow> error" where
  "NewProcessError message exitCode stderr_text = ProcessError message exitCode stderr_text"

definition NewCLIConnectionError :: "string \<Rightarrow> error option \<Rightarrow> error" where
  "NewCLIConnectionError message cause = CLIConnectionError message cause"

definition NewJSONDecodeError :: "string \<Rightarrow> string \<Rightarrow> error option \<Rightarrow> error" where
  "NewJSONDecodeError message line cause = JSONDecodeError message line cause"

section \<open>Values of type interface{} and the control-protocol types\<close>

record PermissionRuleValue =
  ToolName :: string
  RuleContent :: "string option"

record PermissionUpdate =
  Type :: string
  Rules :: "PermissionRuleValue list"
  Behavior :: "string option"
  Mode :: "string option"
  Directories :: "string list"
  Destination :: "string option"

definition zero_PermissionUpdate :: PermissionUpdate where
  "zero_PermissionUpdate =
     \<lparr>Type = [], Rules = [], Behavior = None, Mode = None, Directories = [], Destination = None\<rparr>"

text \<open>
  What a \<open>map[string]interface{}\<close> can hold here: the shapes \<open>encoding/json\<close> decodes
  into (nil, bool, number, string, slice, map), the \<open>[]PermissionUpdate\<close> the permission
  handler stores, and \<open>GUnsupported\<close> for every Go value that \<open>json.Marshal\<close> rejects
  (a channel, a function, a complex number, a NaN or infinite float).  Numbers are never
  computed on.  A map is an association list with distinct keys.
\<close>

datatype gval =
    GNil
  | GBool bool
  | GNumber int
  | GString string
  | GSlice "gval list"
  | GMap "(string \<times> gval) list"
  | GPermissionUpdates "PermissionUpdate list"
  | GUnsupported

type_synonym gomap = "(string \<times> gval) list"

text \<open>The type assertions \<open>v, ok := x.(T)\<close> on the result of a map lookup.\<close>

definition as_string :: "gval option \<Rightarrow> string \<times> bool" where
  "as_string x = (case x of Some (GString s) \<Rightarrow> (s, True) | _ \<Rightarrow> ([], False))"

definition as_map :: "gval option \<Rightarrow> gomap option" where
  "as_map x = (case x of Some (GMap m) \<Rightarrow> Some m | _ \<Rightarrow> None)"

definition as_slice :: "gval option \<Rightarrow> gval list option" where
  "as_slice x = (case x of Some (GSlice xs) \<Rightarrow> Some xs | _ \<Rightarrow> None)"

definition is_map :: "gval \<Rightarrow> bool" where
  "is_map v = (case v of GMap m \<Rightarrow> True | _ \<Rightarrow> False)"

fun encodable :: "gval \<Rightarrow> bool"
  and encodable_list :: "gval list \<Rightarrow> bool"
  and encodable_fields :: "(string \<times> gval) list \<Rightarrow> bool" where
  "encodable GUnsupported = False"
| "encodable (GSlice xs) = encodable_list xs"
| "encodable (GMap kvs) = encodable_fields kvs"
| "encodable GNil = True"
| "encodable (GBool b) = True"
| "encodable (GNumber n) = True"
| "encodable (GString s) = True"
| "encodable (GPermissionUpdates us) = True"
| "encodable_list [] = True"
| "encodable_list (x # xs) = (encodable x \<and> encodable_list xs)"
| "encodable_fields [] = True"
| "encodable_fields ((k, v) # kvs) = (encodable v \<and> encodable_fields kvs)"

record ToolPermissionContext =
  Signal :: gval
  Suggestions :: "PermissionUpdate list"

record PermissionResultAllow =
  allow_Behavior :: string
  UpdatedInput :: "gomap option"
  UpdatedPermissions :: "PermissionUpdate list option"

record PermissionResultDeny =
  deny_Behavior :: string
  Message :: string
  Interrupt :: bool

text \<open>
  The dynamic type of a \<open>PermissionResult\<close>: the handler's type switch knows the two
  pointer types; a nil result and the two struct types passed by value (they implement
  the interface too) fall to its default branch.  A pointer a callback returns is not nil.
\<close>

datatype PermissionResult =
    PtrAllow PermissionResultAllow
  | PtrDeny PermissionResultDeny
  | OtherResult

type_synonym CanUseTool =
  "string \<Rightarrow> gomap option \<Rightarrow> ToolPermissionContext \<Rightarrow> string + PermissionResult"

record HookJSONOutput =
  Decision :: "string option"
  SystemMessage :: "string option"
  HookSpecificOutput :: gval

record HookContext =
  hook_Signal :: gval

text \<open>
  Callbacks are the consumer's code: total functions here, returning the message of their
  error (\<open>Inl\<close>) or their result.  A hook may return a nil output.
\<close>

type_synonym HookCallback =
  "gomap option \<Rightarrow> string option \<Rightarrow> HookContext \<Rightarrow> string + HookJSONOutput option"

record HookMatcher =
  Matcher :: "string option"
  Hooks :: "HookCallback list"

datatype response =
    ControlResponse (Subtype: string) (RequestID: string) (Response: gomap)
  | ControlErrorResponse (Subtype: string) (RequestID: string) (Error_text: string)

datatype SDKControlResponse = SDKControlResponse (resp_Type: string) (Body: response)

text \<open>
  \<open>json.Marshal\<close> of a control response fails exactly when the payload holds a value it
  cannot encode.  The encoded bytes are kept as the value they encode; \<open>Line v\<close> is that
  JSON text followed by a newline, one line of the wire protocol.
\<close>

definition json_Marshal :: "SDKControlResponse \<Rightarrow> string + SDKControlResponse" where
  "json_Marshal resp =
     (case Body resp of
        ControlResponse st rid payload \<Rightarrow>
          if encodable_fields payload then Inr resp else Inl ''json: unsupported value''
      | ControlErrorResponse st rid msg \<Rightarrow> Inr resp)"

datatype line = Line SDKControlResponse

section \<open>The transport's line reader\<close>

text \<open>
  The subprocess's standard output behind a \<open>bufio.Reader\<close>: the bytes it still delivers,
  and the error every read reports once they are used up (\<open>EOF\<close> when the process closed
  the pipe).  \<open>ReadString\<close> returns the bytes up to and including the first delimiter;
  when there is none it returns what is left together with the error.
\<close>

record Reader =
  pending :: string
  ending :: error

definition newline :: char where
  "newline = CHR 0x0A"

fun read_until :: "char \<Rightarrow> string \<Rightarrow> (string \<times> string) option" where
  "read_until delim [] = None"
| "read_until delim (c # cs) =
     (if c = delim then Some ([c], cs)
      else case read_until delim cs of
             None \<Rightarrow> None
           | Some (l, rest) \<Rightarrow> Some (c # l, rest))"

definition ReadString :: "Reader \<Rightarrow> char \<Rightarrow> string \<times> error option \<times> Reader" where
  "ReadString r delim =
     (case read_until delim (pending r) of
        Some (l, rest) \<Rightarrow> (l, None, r\<lparr>pending := rest\<rparr>)
      | None \<Rightarrow> (pending r, Some (ending r), r\<lparr>pending := []\<rparr>))"

section \<open>The query handler: control protocol and message processing\<close>

text \<open>
  The \<open>Query\<close> struct, without its mutex and its wait group, which only make goroutines
  take turns or wait for one another.  \<open>goroutines\<close> is not a field of the source: it lists
  the control requests the read loop has handed to \<open>go q.handleControlRequest(data)\<close>, in
  order.  The transport is an interface to the handlers; they are modelled by the lines
  they pass to its \<open>Write\<close>, whose result they ignore.
\<close>

record Query =
  isStreamingMode :: bool
  canUseTool :: "CanUseTool option"
  hooks :: "(string \<times> HookMatcher list) list"
  sdkMCPServers :: "(string \<times> gval) list"
  reader :: "Reader option"
  ctx :: ctx
  messages :: "gomap chan"
  errors :: "error chan"
  initialized :: bool
  hookCallbacks :: "(string \<times> HookCallback) list"
  goroutines :: "gomap list"

definition NewQuery ::
  "bool \<Rightarrow> CanUseTool option \<Rightarrow> (string \<times> HookMatcher list) list \<Rightarrow> (string \<times> gval) list \<Rightarrow> Query"
where
  "NewQuery streaming cb hks servers =
     \<lparr>isStreamingMode = streaming, canUseTool = cb, hooks = hks, sdkMCPServers = servers,
      reader = None, ctx = None, messages = make_chan, errors = make_chan,
      initialized = False, hookCallbacks = [], goroutines = []\<rparr>"

subsection \<open>Responses\<close>

definition sendSuccessResponse :: "string \<Rightarrow> gomap \<Rightarrow> line list" where
  "sendSuccessResponse requestID payload =
     (let resp = SDKControlResponse ''control_response''
                   (ControlResponse ''success'' requestID payload)
      in case json_Marshal resp of
           Inr data \<Rightarrow> [Line data]
         | Inl err \<Rightarrow> [])"

definition sendErrorResponse :: "string \<Rightarrow> string \<Rightarrow> line list" where
  "sendErrorResponse requestID errorMsg =
     (let resp = SDKControlResponse ''control_response''
                   (ControlErrorResponse ''error'' requestID errorMsg)
      in case json_Marshal resp of
           Inr data \<Rightarrow> [Line data]
         | Inl err \<Rightarrow> [])"

subsection \<open>The dispatcher\<close>

definition permission_response :: "PermissionResult \<Rightarrow> gomap" where
  "permission_response result =
     (case result of
        PtrAllow r \<Rightarrow>
          (let response = [(''behavior'', GString (allow_Behavior r))];
               response = (case UpdatedInput r of
                             Some m \<Rightarrow> AList.update ''updated_input'' (GMap m) response
                           | None \<Rightarrow> response);
               response = (case UpdatedPermissions r of
                             Some us \<Rightarrow> AList.update ''updated_permissions'' (GPermissionUpdates us) response
                           | None \<Rightarrow> response)
           in response)
      | PtrDeny r \<Rightarrow>
          (let response = [(''behavior'', GString (deny_Behavior r)), (''message'', GString (Message r))]
           in if Interrupt r then AList.update ''interrupt'' (GBool True) response else response)
      | OtherResult \<Rightarrow> [(''behavior'', GString ''allow'')])"

definition handleCanUseTool :: "Query \<Rightarrow> string \<Rightarrow> gomap \<Rightarrow> line list" where
  "handleCanUseTool q requestID request =
     (case canUseTool q of
        None \<Rightarrow> sendSuccessResponse requestID [(''behavior'', GString ''allow'')]
      | Some callback \<Rightarrow>
          (let toolName = fst (as_string (map_of request ''tool_name''));
               input = as_map (map_of request ''input'');
               suggestions =
                 (case as_slice (map_of request ''permission_suggestions'') of
                    Some ss \<Rightarrow> map (\<lambda>s. zero_PermissionUpdate) (filter is_map ss)
                  | None \<Rightarrow> []);
               context = \<lparr>Signal = GNil, Suggestions = suggestions\<rparr>
           in case callback toolName input context of
                Inl err \<Rightarrow> sendErrorResponse requestID err
              | Inr result \<Rightarrow> sendSuccessResponse requestID (permission_response result)))"

definition hook_response :: "HookJSONOutput option \<Rightarrow> gomap" where
  "hook_response output =
     (case output of
        None \<Rightarrow> []
      | Some out \<Rightarrow>
          (let response = [];
               response = (case Decision out of
                             Some d \<Rightarrow> AList.update ''decision'' (GString d) response
                           | None \<Rightarrow> response);
               response = (case SystemMessage out of
                             Some m \<Rightarrow> AList.update ''systemMessage'' (GString m) response
                           | None \<Rightarrow> response);
               response = (if HookSpecificOutput out \<noteq> GNil
                           then AList.update ''hookSpecificOutput'' (HookSpecificOutput out) response
                           else response)
           in response))"

definition handleHookCallback :: "Query \<Rightarrow> string \<Rightarrow> gomap \<Rightarrow> line list" where
  "handleHookCallback q requestID request =
     (let callbackID = fst (as_string (map_of request ''callback_id''));
          input = as_map (map_of request ''input'');
          toolUseID = fst (as_string (map_of request ''tool_use_id''))
      in case map_of (hookCallbacks q) callbackID of
           None \<Rightarrow> sendErrorResponse requestID (''callback not found: '' @ callbackID)
         | Some callback \<Rightarrow>
             (let toolUseIDPtr = (if toolUseID \<noteq> [] then Some toolUseID else None)
              in case callback input toolUseIDPtr \<lparr>hook_Signal = GNil\<rparr> of
                   Inl err \<Rightarrow> sendErrorResponse requestID err
                 | Inr output \<Rightarrow> sendSuccessResponse requestID (hook_response output)))"

definition handleMCPMessage :: "Query \<Rightarrow> string \<Rightarrow> gomap \<Rightarrow> line list" where
  "handleMCPMessage q requestID request =
     (let serverName = fst (as_string (map_of request ''server_name''))
      in case map_of (sdkMCPServers q) serverName of
           None \<Rightarrow> sendErrorResponse requestID (''SDK MCP server not found: '' @ serverName)
         | Some server \<Rightarrow> sendSuccessResponse requestID [(''result'', GString ''not implemented'')])"

definition handleControlRequest :: "Query \<Rightarrow> gomap \<Rightarrow> line list" where
  "handleControlRequest q data =
     (let requestID = fst (as_string (map_of data ''request_id''))
      in case as_map (map_of data ''request'') of
           None \<Rightarrow> sendErrorResponse requestID ''invalid request format''
         | Some request \<Rightarrow>
             (let subtype = fst (as_string (map_of request ''subtype''))
              in if subtype = ''can_use_tool'' then handleCanUseTool q requestID request
                 else if subtype = ''hook_callback'' then handleHookCallback q requestID request
                 else if subtype = ''mcp_message'' then handleMCPMessage q requestID request
                 else sendErrorResponse requestID (''unknown control request subtype: '' @ subtype)))"

subsection \<open>The read loop\<close>

text \<open>
  \<open>json.Unmarshal\<close> into a \<open>map[string]interface{}\<close> is a parameter of the loop: the
  decoded map, or the decoder's error.  \<open>select_send\<close> is the statement
  \<open>select { case ch <- v: ... case <-q.ctx.Done(): ... }\<close>: while the context is open the
  send goes through; once it is done the model takes the \<open>ctx.Done()\<close> arm (Go may take
  either when both are ready).  \<open>readLoop_iteration\<close> is one pass through the body of the
  \<open>for\<close> loop: \<open>Inl\<close> when the goroutine returns or panics, \<open>Inr\<close> when the loop goes
  round again.
\<close>

definition is_control_request :: "gomap \<Rightarrow> bool" where
  "is_control_request data =
     (case as_string (map_of data ''type'') of (msgType, ok) \<Rightarrow> ok \<and> msgType = ''control_request'')"

datatype 'a selected = Sent "'a chan" | CtxDone | SendPanic

definition select_send :: "'a \<Rightarrow> 'a chan \<Rightarrow> ctx \<Rightarrow> 'a selected" where
  "select_send v ch c =
     (if ctx_Done c then CtxDone
      else case chan_send v ch of None \<Rightarrow> SendPanic | Some ch' \<Rightarrow> Sent ch')"

definition readLoop_iteration ::
  "(string \<Rightarrow> error + gomap) \<Rightarrow> Query \<Rightarrow> (unit outcome \<times> Query) + Query" where
  "readLoop_iteration unmarshal q =
     (if ctx_Done (ctx q) then Inl (Return (), q)
      else
        let q = q\<lparr>ctx := ctx_tick (ctx q)\<rparr> in
        case reader q of
          None \<Rightarrow> Inl (Panic ''invalid memory address or nil pointer dereference'', q)
        | Some rd \<Rightarrow>
            (case ReadString rd newline of
               (line, err, rd') \<Rightarrow>
                 let q = q\<lparr>reader := Some rd'\<rparr> in
                 (case err of
                    Some e \<Rightarrow>
                      if e \<noteq> EOF then
                        (case select_send (NewCLIConnectionError ''error reading from transport'' (Some e))
                                (errors q) (ctx q) of
                           Sent ch \<Rightarrow> Inl (Return (), q\<lparr>ctx := ctx_tick (ctx q), errors := ch\<rparr>)
                         | CtxDone \<Rightarrow> Inl (Return (), q)
                         | SendPanic \<Rightarrow> Inl (Panic ''send on closed channel'', q))
                      else Inl (Return (), q)
                  | None \<Rightarrow>
                      if line = [] then Inr q
                      else
                        (case unmarshal line of
                           Inl e \<Rightarrow>
                             (case select_send (NewJSONDecodeError ''failed to decode message'' line (Some e))
                                     (errors q) (ctx q) of
                                Sent ch \<Rightarrow> Inr (q\<lparr>ctx := ctx_tick (ctx q), errors := ch\<rparr>)
                              | CtxDone \<Rightarrow> Inr q
                              | SendPanic \<Rightarrow> Inl (Panic ''send on closed channel'', q))
                         | Inr data \<Rightarrow>
                             if is_control_request data
                             then Inr (q\<lparr>goroutines := goroutines q @ [data]\<rparr>)
                             else
                               (case select_send data (messages q) (ctx q) of
                                  Sent ch \<Rightarrow> Inr (q\<lparr>ctx := ctx_tick (ctx q), messages := ch\<rparr>)
                                | CtxDone \<Rightarrow> Inl (Return (), q)
                                | SendPanic \<Rightarrow> Inl (Panic ''send on closed channel'', q))))))"

definition unread :: "Query \<Rightarrow> nat" where
  "unread q = (case reader q of None \<Rightarrow> 0 | Some rd \<Rightarrow> length (pending rd))"

function readLoop :: "(string \<Rightarrow> error + gomap) \<Rightarrow> Query \<Rightarrow> unit outcome \<times> Query" where
  "readLoop unmarshal q =
     (case readLoop_iteration unmarshal q of
        Inl finished \<Rightarrow> finished
      | Inr q' \<Rightarrow> readLoop unmarshal q')"
  by pat_completeness auto
termination
proof (relation "measure (\<lambda>(unmarshal, q). unread q)")
  show "wf (measure (\<lambda>(unmarshal, q). unread q))"
    by simp
next
  fix unmarshal :: "string \<Rightarrow> error + gomap" and q q' :: Query
  assume step: "readLoop_iteration unmarshal q = Inr q'"
  have shorter: "length rest < length s" if "read_until d s = Some (l, rest)" for d s l rest
    using that by (induction s arbitrary: l) (auto split: if_splits option.splits)
  have "unread q' < unread q"
    using step
    by (auto simp: readLoop_iteration_def unread_def Let_def ReadString_def
             split: if_splits option.splits prod.splits sum.splits selected.splits)
       (erule shorter)+
  then show "((unmarshal, q'), (unmarshal, q)) \<in> measure (\<lambda>(unmarshal, q). unread q)"
    by simp
qed

declare readLoop.simps [simp del]


subsection \<open>Start, Initialize and Stop\<close>

text \<open>
  \<open>Start\<close> takes what \<open>q.transport.Reader()\<close> returns: the transport's
  \<open>*bufio.Reader\<close>, or nil when the transport has none.  \<open>bufio.NewReader\<close> hands a
  \<open>*bufio.Reader\<close> that is large enough back as it is, and panics on a nil one when it
  looks at its buffer.  The read loop \<open>Start\<close> launches runs on its own goroutine
  (\<open>readLoop\<close> above).  \<open>Stop\<close> cancels, waits for the read loop to return
  (\<open>wg.Wait()\<close> is taken to come back) and closes both channels.
\<close>

definition Start :: "Reader option \<Rightarrow> Query \<Rightarrow> error option outcome \<times> Query" where
  "Start transport_Reader q =
     (if reader q = None then
        (case transport_Reader of
           None \<Rightarrow> (Panic ''invalid memory address or nil pointer dereference'', q)
         | Some r \<Rightarrow> (Return None, q\<lparr>reader := Some r\<rparr>))
      else (Return None, q))"

fun register_callbacks ::
  "string \<Rightarrow> HookCallback list \<Rightarrow> (string \<times> HookCallback) list \<Rightarrow> (string \<times> HookCallback) list"
where
  "register_callbacks event [] registered = registered"
| "register_callbacks event (callback # rest) registered =
     (let callbackID = ''hook_'' @ event @ ''_'' @ Sprintf_d (of_nat (length registered))
      in register_callbacks event rest (AList.update callbackID callback registered))"

fun register_matchers ::
  "string \<Rightarrow> HookMatcher list \<Rightarrow> (string \<times> HookCallback) list \<Rightarrow> (string \<times> HookCallback) list"
where
  "register_matchers event [] registered = registered"
| "register_matchers event (matcher # rest) registered =
     register_matchers event rest (register_callbacks event (Hooks matcher) registered)"

fun register_hooks ::
  "(string \<times> HookMatcher list) list \<Rightarrow> (string \<times> HookCallback) list \<Rightarrow> (string \<times> HookCallback) list"
where
  "register_hooks [] registered = registered"
| "register_hooks ((event, matchers) # rest) registered =
     register_hooks rest (register_matchers event matchers registered)"

definition Initialize :: "Query \<Rightarrow> error option \<times> Query" where
  "Initialize q =
     (if initialized q then (None, q)
      else (None, q\<lparr>hookCallbacks := register_hooks (hooks q) (hookCallbacks q),
                      initialized := True\<rparr>))"

definition Stop :: "Query \<Rightarrow> unit outcome \<times> Query" where
  "Stop q =
     (let q = q\<lparr>ctx := cancel (ctx q)\<rparr>
      in case chan_close (messages q) of
           None \<Rightarrow> (Panic ''close of closed channel'', q)
         | Some m \<Rightarrow>
             (let q = q\<lparr>messages := m\<rparr>
              in case chan_close (errors q) of
                   None \<Rightarrow> (Panic ''close of closed channel'', q)
                 | Some e \<Rightarrow> (Return (), q\<lparr>errors := e\<rparr>)))"

subsection \<open>Outbound request ids\<close>

text \<open>
  \<open>requestCounter\<close> is a package-level \<open>int\<close>; the mutex makes invocations take turns,
  so each is a step from the counter's value to the id and the new value.
  \<open>request_ids n c\<close> lists the ids of \<open>n\<close> invocations in a row, starting at counter \<open>c\<close>.
\<close>

definition generateRequestID :: "64 word \<Rightarrow> string \<times> 64 word" where
  "generateRequestID requestCounter =
     (let requestCounter = requestCounter + 1
      in (''req_'' @ Sprintf_d requestCounter, requestCounter))"

fun request_ids :: "nat \<Rightarrow> 64 word \<Rightarrow> string list" where
  "request_ids 0 c = []"
| "request_ids (Suc n) c = (case generateRequestID c of (rid, c') \<Rightarrow> rid # request_ids n c')"

section \<open>The subprocess transport\<close>

text \<open>
  The fields of \<open>SubprocessTransport\<close> that \<open>Connect\<close>, \<open>Write\<close>, \<open>Close\<close>,
  \<open>Reader\<close> and \<open>monitorExit\<close> read or write; the options, from which only the child's
  command line, working directory and environment are made, are left out.  The prompt is
  a string, a channel, or something else.  A pipe is the handle of an operating-system
  pipe, \<open>cmd_started\<close> says whether \<open>cmd.Process\<close> is set.  What the transport does to
  the operating system is appended to a trace.
\<close>

datatype prompt = StringPrompt string | ChannelPrompt | OtherPrompt

datatype os_event = PipeClose nat | ProcessKill | ProcessWait | PipeWrite nat string

record Cmd =
  cmd_started :: bool

record SubprocessTransport =
  prompt :: prompt
  cliPath :: string
  cmd :: "Cmd option"
  stdin :: "nat option"
  stdout :: "nat option"
  stderr :: "nat option"
  t_reader :: "Reader option"
  connected :: bool
  exitError :: "error option"

definition close_pipe :: "nat option \<Rightarrow> os_event list" where
  "close_pipe p = (case p of Some h \<Rightarrow> [PipeClose h] | None \<Rightarrow> [])"

definition Close :: "SubprocessTransport \<Rightarrow> os_event list \<Rightarrow> error option \<times> SubprocessTransport \<times> os_event list" where
  "Close t os =
     (if \<not> connected t then (None, t, os)
      else
        let t' = t\<lparr>connected := False, stdin := None, stdout := None, stderr := None, cmd := None\<rparr>;
            os = os @ close_pipe (stdin t);
            os = os @ close_pipe (stdout t);
            os = os @ close_pipe (stderr t);
            os = (case cmd t of
                    Some c \<Rightarrow> if cmd_started c then os @ [ProcessKill, ProcessWait] else os
                  | None \<Rightarrow> os)
        in (None, t', os))"

definition Transport_Reader :: "SubprocessTransport \<Rightarrow> Reader option" where
  "Transport_Reader t = t_reader t"

subsection \<open>Connecting\<close>

text \<open>
  What the operating system and the standard library answer while a transport is made
  and connected: the look-up of a program on the path, the environment, whether a file
  exists, the platform, \<open>filepath.Join\<close>, the three pipes of the command (an error, or
  the pipe's handle), the bytes the child will write to its standard output, the outcome
  of starting the command, whether the child has already exited when the prompt is about
  to be written (and what \<open>cmd.Wait()\<close> then told \<open>monitorExit\<close>), and the outcome of
  writing to the child's standard input.
\<close>

datatype exit_status = ExitedCleanly | ExitError "64 word" string | WaitFailed error

record system =
  LookPath :: "string \<Rightarrow> string option"
  Getenv :: "string \<Rightarrow> string"
  Stat :: "string \<Rightarrow> bool"
  GOOS :: string
  Join :: "string list \<Rightarrow> string"
  StdinPipe :: "error + nat"
  StdoutPipe :: "error + nat"
  StderrPipe :: "error + nat"
  stdout_bytes :: Reader
  cmd_Start :: "error option"
  cmd_Wait :: "exit_status option"
  stdin_Write :: "error option"

definition findCLI :: "system \<Rightarrow> string" where
  "findCLI sys =
     (case LookPath sys ''claude'' of
        Some path \<Rightarrow> path
      | None \<Rightarrow>
          (let locations =
                 [Join sys [Getenv sys ''HOME'', ''.npm-global/bin/claude''],
                  ''/usr/local/bin/claude'',
                  Join sys [Getenv sys ''HOME'', ''.local/bin/claude''],
                  Join sys [Getenv sys ''HOME'', ''node_modules/.bin/claude''],
                  Join sys [Getenv sys ''HOME'', ''.yarn/bin/claude'']];
               locations =
                 (if GOOS sys = ''windows'' then
                    (let appData = Getenv sys ''APPDATA''
                     in if appData \<noteq> [] then
                          locations @ [Join sys [appData, ''npm'', ''claude.cmd''],
                                       Join sys [appData, ''npm'', ''claude'']]
                        else locations)
                  else locations)
           in case find (Stat sys) locations of
                Some loc \<Rightarrow> loc
              | None \<Rightarrow> []))"

definition getCLINotFoundMessage :: "system \<Rightarrow> string" where
  "getCLINotFoundMessage sys =
     (if LookPath sys ''node'' = None then
        ''Claude Code requires Node.js, which is not installed.'' @ [newline, newline] @
        ''Install Node.js from: https://nodejs.org/'' @ [newline, newline] @
        ''After installing Node.js, install Claude Code:'' @ [newline] @
        ''  npm install -g @vinaayakha/claude-code''
      else
        ''Claude Code not found. Install with:'' @ [newline] @
        ''  npm install -g @vinaayakha/claude-code'' @ [newline, newline] @
        ''If already installed locally, try:'' @ [newline] @
        ''  export PATH='' @ [CHR 0x22] @ ''$HOME/node_modules/.bin:$PATH'' @ [CHR 0x22] @
        [newline, newline] @
        ''Or specify the path when creating transport:'' @ [newline] @
        ''  transport := NewSubprocessTransport(..., options, '' @ [CHR 0x22] @
        ''/path/to/claude'' @ [CHR 0x22] @ '')'')"

definition NewSubprocessTransport :: "system \<Rightarrow> prompt \<Rightarrow> string \<Rightarrow> SubprocessTransport" where
  "NewSubprocessTransport sys p path =
     (let path = (if path = [] then findCLI sys else path)
      in \<lparr>prompt = p, cliPath = path, cmd = None, stdin = None, stdout = None, stderr = None,
          t_reader = None, connected = False, exitError = None\<rparr>)"

definition Write ::
  "SubprocessTransport \<Rightarrow> string \<Rightarrow> error option \<Rightarrow> os_event list \<Rightarrow> error option \<times> os_event list" where
  "Write t data written os =
     (if \<not> connected t then (Some (NewCLIConnectionError ''transport not connected'' None), os)
      else
        case stdin t of
          None \<Rightarrow> (Some (NewCLIConnectionError ''stdin not available'' None), os)
        | Some h \<Rightarrow>
            (case written of
               Some err \<Rightarrow> (Some (NewCLIConnectionError ''failed to write to stdin'' (Some err)), os)
             | None \<Rightarrow> (None, os @ [PipeWrite h data])))"

definition monitorExit ::
  "exit_status \<Rightarrow> SubprocessTransport \<Rightarrow> os_event list \<Rightarrow> SubprocessTransport \<times> os_event list" where
  "monitorExit waited t os =
     (let t = (case waited of
                 ExitedCleanly \<Rightarrow> t
               | ExitError code stderr_text \<Rightarrow>
                   t\<lparr>exitError := Some (NewProcessError ''CLI process exited'' code stderr_text)\<rparr>
               | WaitFailed err \<Rightarrow>
                   t\<lparr>exitError := Some (NewCLIConnectionError ''CLI process error'' (Some err))\<rparr>)
      in (t\<lparr>connected := False\<rparr>, os @ [ProcessWait]))"

text \<open>
  A call of \<open>Connect\<close> returns, or the Go runtime aborts the process: unlocking a
  \<open>sync.RWMutex\<close> that is not locked is a fatal error, which nothing can recover.
  \<open>Connect\<close> locks \<open>t.mu\<close> and defers its unlocking; the flag given to
  \<open>deferred_Unlock\<close> says whether the mutex is locked when the function returns and the
  deferred call runs.  \<open>Write\<close> and \<open>Close\<close> lock and unlock the mutex themselves;
  \<open>Connect\<close> calls them after its own \<open>t.mu.Unlock()\<close>.  \<open>monitorExit\<close> runs on its
  own goroutine; when the child has exited early it gets the mutex as soon as \<open>Connect\<close>
  has unlocked it.
\<close>

datatype 'r run = Returns 'r | Crashed string

definition deferred_Unlock :: "bool \<Rightarrow> 'r \<Rightarrow> 'r run" where
  "deferred_Unlock locked r =
     (if locked then Returns r else Crashed ''fatal error: sync: Unlock of unlocked RWMutex'')"

definition Connect ::
  "system \<Rightarrow> SubprocessTransport \<Rightarrow> os_event list
     \<Rightarrow> (error option \<times> SubprocessTransport \<times> os_event list) run" where
  "Connect sys t os =
     (if connected t then deferred_Unlock True (None, t, os)
      else if cliPath t = [] then
        deferred_Unlock True (Some (NewCLINotFoundError (getCLINotFoundMessage sys)), t, os)
      else
        let t = t\<lparr>cmd := Some \<lparr>cmd_started = False\<rparr>\<rparr> in
        case StdinPipe sys of
          Inl err \<Rightarrow>
            deferred_Unlock True
              (Some (NewCLIConnectionError ''failed to create stdin pipe'' (Some err)),
               t\<lparr>stdin := None\<rparr>, os)
        | Inr h0 \<Rightarrow>
            let t = t\<lparr>stdin := Some h0\<rparr> in
            (case StdoutPipe sys of
               Inl err \<Rightarrow>
                 deferred_Unlock True
                   (Some (NewCLIConnectionError ''failed to create stdout pipe'' (Some err)),
                    t\<lparr>stdout := None\<rparr>, os)
             | Inr h1 \<Rightarrow>
                 let t = t\<lparr>stdout := Some h1\<rparr> in
                 (case StderrPipe sys of
                    Inl err \<Rightarrow>
                      deferred_Unlock True
                        (Some (NewCLIConnectionError ''failed to create stderr pipe'' (Some err)),
                         t\<lparr>stderr := None\<rparr>, os)
                  | Inr h2 \<Rightarrow>
                      let t = t\<lparr>stderr := Some h2\<rparr>;
                          t = t\<lparr>t_reader := Some (stdout_bytes sys)\<rparr> in
                      (case cmd_Start sys of
                         Some err \<Rightarrow>
                           deferred_Unlock True
                             (Some (NewCLIConnectionError ''failed to start CLI process'' (Some err)),
                              t, os)
                       | None \<Rightarrow>
                           let t = t\<lparr>cmd := Some \<lparr>cmd_started = True\<rparr>\<rparr>;
                               t = t\<lparr>connected := True\<rparr>;
                               (t, os) = (case cmd_Wait sys of
                                            Some waited \<Rightarrow> monitorExit waited t os
                                          | None \<Rightarrow> (t, os))
                           in
                           (case prompt t of
                              StringPrompt str \<Rightarrow>
                                if str \<noteq> [] then
                                  (case Write t (str @ [newline]) (stdin_Write sys) os of
                                     (Some err, os) \<Rightarrow>
                                       (case Close t os of
                                          (closed_err, t, os) \<Rightarrow>
                                            deferred_Unlock False (Some err, t, os))
                                   | (None, os) \<Rightarrow> deferred_Unlock True (None, t, os))
                                else deferred_Unlock True (None, t, os)
                            | ChannelPrompt \<Rightarrow> deferred_Unlock True (None, t, os)
                            | OtherPrompt \<Rightarrow> deferred_Unlock True (None, t, os))))))"

section \<open>Messages\<close>

text \<open>
  The typed messages of package \<open>types\<close>.  Only the dynamic type and the fields of a
  \<open>SystemMessage\<close> are looked at here; the other messages carry their fields as a map.
\<close>

datatype Message =
    UserMessage gomap
  | AssistantMessage gomap
  | SystemMessage (Subtype_of: string) (Data: gomap)
  | ResultMessage gomap
  | StreamEvent gomap

definition isResult :: "Message \<Rightarrow> bool" where
  "isResult msg = (case msg of ResultMessage m \<Rightarrow> True | _ \<Rightarrow> False)"

definition error_message :: "error \<Rightarrow> Message" where
  "error_message err = SystemMessage ''error'' [(''error'', GString (Error err))]"

section \<open>The interactive client\<close>

record ClaudeSDKClient =
  c_transport :: "SubprocessTransport option"
  c_query :: "Query option"
  c_connected :: bool
  c_messages :: "Message chan"
  c_errors :: "error chan"
  c_ctx :: ctx

definition ClaudeSDKClient_Close ::
  "ClaudeSDKClient \<Rightarrow> os_event list \<Rightarrow> error option outcome \<times> ClaudeSDKClient \<times> os_event list" where
  "ClaudeSDKClient_Close c os =
     (if \<not> c_connected c then (Return None, c, os)
      else
        let c = c\<lparr>c_connected := False\<rparr>;
            c = c\<lparr>c_ctx := cancel (c_ctx c)\<rparr>;
            (stopped, c) = (case c_query c of
                              Some q \<Rightarrow> (case Stop q of (r, q') \<Rightarrow> (r, c\<lparr>c_query := Some q'\<rparr>))
                            | None \<Rightarrow> (Return (), c))
        in case stopped of
             Panic m \<Rightarrow> (Panic m, c, os)
           | Return u \<Rightarrow>
               (case c_transport c of
                  Some t \<Rightarrow>
                    (case Close t os of (err, t', os') \<Rightarrow> (Return err, c\<lparr>c_transport := Some t'\<rparr>, os'))
                | None \<Rightarrow>
                    (case chan_close (c_messages c) of
                       None \<Rightarrow> (Panic ''close of closed channel'', c, os)
                     | Some m \<Rightarrow>
                         (let c = c\<lparr>c_messages := m\<rparr>
                          in case chan_close (c_errors c) of
                               None \<Rightarrow> (Panic ''close of closed channel'', c, os)
                             | Some e \<Rightarrow> (Return None, c\<lparr>c_errors := e\<rparr>, os)))))"

section \<open>The one-shot Query function\<close>

text \<open>
  \<open>Query\<close> makes the channel, starts a goroutine and returns the channel with a nil error.
  The goroutine makes the transport, connects it, and then is a function of the message
  parser and of the events its \<open>select\<close> receives, in order: the caller's context is
  done, the handler's message channel yields a message or is closed (\<open>None\<close>), its error
  channel yields an error or is closed.  When the events run out the goroutine is blocked
  in the \<open>select\<close> and has not returned.  The deferred \<open>close(messages)\<close> runs when it
  returns; \<open>query.Stop()\<close> and \<open>t.Close()\<close> are deferred too and do not touch the
  channel.  \<open>Returns ch\<close> is the channel as the goroutine leaves it; \<open>Crashed m\<close> says that
  the process was aborted (a fatal error of the runtime, or a panic nobody recovers)
  before the goroutine sent anything.
\<close>

datatype event = ContextDone | GotMessage "gomap option" | GotError "error option"

fun process_messages ::
  "(gomap \<Rightarrow> error + Message) \<Rightarrow> event list \<Rightarrow> Message list \<Rightarrow> bool \<times> Message list" where
  "process_messages ParseMessage [] out = (False, out)"
| "process_messages ParseMessage (ContextDone # es) out = (True, out)"
| "process_messages ParseMessage (GotMessage None # es) out = (True, out)"
| "process_messages ParseMessage (GotMessage (Some data) # es) out =
     (case ParseMessage data of
        Inl err \<Rightarrow> process_messages ParseMessage es (out @ [error_message err])
      | Inr msg \<Rightarrow>
          if isResult msg then (True, out @ [msg])
          else process_messages ParseMessage es (out @ [msg]))"
| "process_messages ParseMessage (GotError None # es) out = (True, out)"
| "process_messages ParseMessage (GotError (Some err) # es) out =
     process_messages ParseMessage es (out @ [error_message err])"

definition Query_goroutine ::
  "system \<Rightarrow> prompt \<Rightarrow> (gomap \<Rightarrow> error + Message) \<Rightarrow> event list \<Rightarrow> Message chan run" where
  "Query_goroutine sys p ParseMessage events =
     (let t = NewSubprocessTransport sys p []
      in case Connect sys t [] of
           Crashed m \<Rightarrow> Crashed m
         | Returns (Some err, t, os) \<Rightarrow> Returns \<lparr>buf = [error_message err], closed = True\<rparr>
         | Returns (None, t, os) \<Rightarrow>
             (let isStreaming = (p = ChannelPrompt);
                  query = NewQuery isStreaming None [] []
              in case Start (Transport_Reader t) query of
                   (Panic m, query) \<Rightarrow> Crashed m
                 | (Return (Some err), query) \<Rightarrow>
                     Returns \<lparr>buf = [error_message err], closed = True\<rparr>
                 | (Return None, query) \<Rightarrow>
                     (case Initialize query of
                        (Some err, query) \<Rightarrow> Returns \<lparr>buf = [error_message err], closed = True\<rparr>
                      | (None, query) \<Rightarrow>
                          (case process_messages ParseMessage events [] of
                             (returned, out) \<Rightarrow> Returns \<lparr>buf = out, closed = returned\<rparr>))))"

definition Query_fn ::
  "system \<Rightarrow> prompt \<Rightarrow> (gomap \<Rightarrow> error + Message) \<Rightarrow> event list
     \<Rightarrow> Message chan run \<times> error option" where
  "Query_fn sys p ParseMessage events = (Query_goroutine sys p ParseMessage events, None)"

section \<open>Properties of the control-request dispatcher\<close>

lemma sendErrorResponse_line:
  "sendErrorResponse requestID msg =
     [Line (SDKControlResponse ''control_response'' (ControlErrorResponse ''error'' requestID msg))]"
  by (simp add: sendErrorResponse_def json_Marshal_def)

lemma sendSuccessResponse_line:
  "sendSuccessResponse requestID payload =
     (if encodable_fields payload
      then [Line (SDKControlResponse ''control_response'' (ControlResponse ''success'' requestID payload))]
      else [])"
  by (simp add: sendSuccessResponse_def json_Marshal_def)

text \<open>
  Whatever the request and the callbacks, the dispatcher passes at most one line to the
  transport, and a line it passes carries the request id it read from the request (the
  empty string when \<open>request_id\<close> is missing or not a string).
\<close>

lemma handleControlRequest_responses:
  "handleControlRequest q data = []
   \<or> (\<exists>r. handleControlRequest q data = [Line (SDKControlResponse ''control_response'' r)]
          \<and> RequestID r = fst (as_string (map_of data ''request_id'')))"
  by (auto simp: handleControlRequest_def handleCanUseTool_def handleHookCallback_def
                 handleMCPMessage_def sendSuccessResponse_line sendErrorResponse_line Let_def
           split: option.splits sum.splits)

text \<open>
  A session without callbacks, such as the one the one-shot \<open>Query\<close> function builds,
  answers every control request with exactly one line.
\<close>

lemma no_callbacks_one_response:
  "canUseTool q = None \<Longrightarrow> hookCallbacks q = [] \<Longrightarrow> length (handleControlRequest q data) = 1"
  by (auto simp: handleControlRequest_def handleCanUseTool_def handleHookCallback_def
                 handleMCPMessage_def sendSuccessResponse_line sendErrorResponse_line Let_def
           split: option.splits sum.splits)

text \<open>
  C1.  Claim: every inbound control request gets exactly one control response on the
  transport, with the request's id, and no branch drops a request.  The code drops one:
  a permission callback allows the tool and returns an updated input that
  \<open>json.Marshal\<close> cannot encode (here a NaN under the key \<open>ratio\<close>);
  \<open>sendSuccessResponse\<close> then skips the write, and the dispatcher passes no line at all
  to the transport for request \<open>r1\<close>.
\<close>

theorem unencodable_result_dropped:
  "handleControlRequest
     (NewQuery True
        (Some (\<lambda>toolName input context.
                 Inr (PtrAllow \<lparr>allow_Behavior = ''allow'',
                                 UpdatedInput = Some [(''ratio'', GUnsupported)],
                                 UpdatedPermissions = None\<rparr>)))
        [] [])
     [(''type'', GString ''control_request''), (''request_id'', GString ''r1''),
      (''request'', GMap [(''subtype'', GString ''can_use_tool''),
                          (''tool_name'', GString ''Bash''), (''input'', GMap [])])]
   = []"
  by (simp add: handleControlRequest_def handleCanUseTool_def sendSuccessResponse_line
                permission_response_def as_map_def as_string_def as_slice_def NewQuery_def
                AList.update.simps)

text \<open>
  C3.  For every inbound \<open>can_use_tool\<close> control request, when no permission callback
  is registered, the dispatcher passes exactly one line to the transport: the success
  response whose payload is \<open>{"behavior": "allow"}\<close> and whose request id is the one
  of the request.  The handler is a function of the query and the request to the lines
  written, so it does nothing else.
\<close>

theorem default_allow:
  assumes "canUseTool q = None"
    and "map_of data ''request'' = Some (GMap request)"
    and "map_of request ''subtype'' = Some (GString ''can_use_tool'')"
  shows "handleControlRequest q data =
           [Line (SDKControlResponse ''control_response''
                    (ControlResponse ''success'' (fst (as_string (map_of data ''request_id'')))
                       [(''behavior'', GString ''allow'')]))]"
  using assms
  by (simp add: handleControlRequest_def handleCanUseTool_def sendSuccessResponse_line
                as_map_def as_string_def)

text \<open>Scenario B of the specification: request \<open>r1\<close> for the tool \<open>Bash\<close>.\<close>

theorem default_allow_witness:
  "canUseTool (NewQuery True None [] []) = None
   \<and> handleControlRequest (NewQuery True None [] [])
        [(''type'', GString ''control_request''), (''request_id'', GString ''r1''),
         (''request'', GMap [(''subtype'', GString ''can_use_tool''),
                             (''tool_name'', GString ''Bash''), (''input'', GMap [])])]
     = [Line (SDKControlResponse ''control_response''
                (ControlResponse ''success'' ''r1'' [(''behavior'', GString ''allow'')]))]"
  using default_allow [of "NewQuery True None [] []"
        "[(''type'', GString ''control_request''), (''request_id'', GString ''r1''),
          (''request'', GMap [(''subtype'', GString ''can_use_tool''),
                              (''tool_name'', GString ''Bash''), (''input'', GMap [])])]"
        "[(''subtype'', GString ''can_use_tool''),
          (''tool_name'', GString ''Bash''), (''input'', GMap [])]"]
  by (simp add: NewQuery_def as_string_def)

text \<open>
  C4, as amended.  For every inbound \<open>mcp_message\<close> control request whose
  \<open>server_name\<close> names a registered server, the dispatcher's reply is one success
  response, with the request's id and the payload \<open>{"result": "not implemented"}\<close>.
\<close>

theorem mcp_registered_reply:
  assumes "map_of data ''request'' = Some (GMap request)"
    and "map_of request ''subtype'' = Some (GString ''mcp_message'')"
    and "map_of request ''server_name'' = Some (GString serverName)"
    and "map_of (sdkMCPServers q) serverName = Some server"
  shows "handleControlRequest q data =
           [Line (SDKControlResponse ''control_response''
                    (ControlResponse ''success'' (fst (as_string (map_of data ''request_id'')))
                       [(''result'', GString ''not implemented'')]))]"
  using assms
  by (simp add: handleControlRequest_def handleMCPMessage_def sendSuccessResponse_line
                as_map_def as_string_def)

theorem mcp_registered_reply_witness:
  "handleControlRequest (NewQuery True None [] [(''calc'', GMap [])])
        [(''type'', GString ''control_request''), (''request_id'', GString ''r7''),
         (''request'', GMap [(''subtype'', GString ''mcp_message''),
                             (''server_name'', GString ''calc''), (''message'', GMap [])])]
     = [Line (SDKControlResponse ''control_response''
                (ControlResponse ''success'' ''r7'' [(''result'', GString ''not implemented'')]))]"
  using mcp_registered_reply [of
        "[(''type'', GString ''control_request''), (''request_id'', GString ''r7''),
          (''request'', GMap [(''subtype'', GString ''mcp_message''),
                              (''server_name'', GString ''calc''), (''message'', GMap [])])]"
        "[(''subtype'', GString ''mcp_message''),
          (''server_name'', GString ''calc''), (''message'', GMap [])]"
        "''calc''" "NewQuery True None [] [(''calc'', GMap [])]" "GMap []"]
  by (simp add: NewQuery_def as_string_def)

text \<open>
  C4, as stated, fails: the reply to request \<open>m1\<close> for the registered server
  \<open>tools\<close> is a \<open>ControlResponse\<close> of subtype \<open>success\<close>, not an error response.
\<close>

theorem mcp_reply_is_success:
  "handleControlRequest (NewQuery True None [] [(''tools'', GNil)])
        [(''type'', GString ''control_request''), (''request_id'', GString ''m1''),
         (''request'', GMap [(''subtype'', GString ''mcp_message''),
                             (''server_name'', GString ''tools'')])]
     = [Line (SDKControlResponse ''control_response''
                (ControlResponse ''success'' ''m1'' [(''result'', GString ''not implemented'')]))]
   \<and> handleControlRequest (NewQuery True None [] [(''tools'', GNil)])
        [(''type'', GString ''control_request''), (''request_id'', GString ''m1''),
         (''request'', GMap [(''subtype'', GString ''mcp_message''),
                             (''server_name'', GString ''tools'')])]
     \<noteq> [Line (SDKControlResponse ''control_response''
                (ControlErrorResponse ''error'' ''m1'' ''not implemented''))]"
  by (simp add: handleControlRequest_def handleMCPMessage_def sendSuccessResponse_line
                as_map_def as_string_def NewQuery_def)

section \<open>Properties of the read loop\<close>

lemma read_until_line:
  "delim \<notin> set body \<Longrightarrow> read_until delim (body @ delim # rest) = Some (body @ [delim], rest)"
  by (induction body) auto

lemma read_until_none: "delim \<notin> set s \<Longrightarrow> read_until delim s = None"
  by (induction s) auto

lemma ReadString_line:
  "pending rd = body @ newline # rest \<Longrightarrow> newline \<notin> set body \<Longrightarrow>
   ReadString rd newline = (body @ [newline], None, rd\<lparr>pending := rest\<rparr>)"
  by (simp add: ReadString_def read_until_line)

lemma ReadString_end:
  "newline \<notin> set (pending rd) \<Longrightarrow>
   ReadString rd newline = (pending rd, Some (ending rd), rd\<lparr>pending := []\<rparr>)"
  by (simp add: ReadString_def read_until_none)

text \<open>
  A line that \<open>ReadString\<close> returns without an error ends in the delimiter, so it is never
  empty: the loop's test \<open>line == ""\<close> does not fire for a blank line of the input.
\<close>

lemma ReadString_never_empty:
  "ReadString rd delim = (l, None, rd') \<Longrightarrow> l \<noteq> []"
proof -
  have "l \<noteq> []" if "read_until d s = Some (l, r)" for d s l r
    using that by (induction s arbitrary: l) (auto split: if_splits option.splits)
  then show "ReadString rd delim = (l, None, rd') \<Longrightarrow> l \<noteq> []"
    by (auto simp: ReadString_def split: option.splits)
qed

lemma iteration_decode_error:
  assumes "ctx q = None" "reader q = Some rd" "pending rd = body @ newline # rest"
    "newline \<notin> set body" "unmarshal (body @ [newline]) = Inl e" "\<not> closed (errors q)"
  shows "readLoop_iteration unmarshal q =
           Inr (q\<lparr>reader := Some (rd\<lparr>pending := rest\<rparr>),
                  errors := (errors q)\<lparr>buf := buf (errors q) @
                     [JSONDecodeError ''failed to decode message'' (body @ [newline]) (Some e)]\<rparr>\<rparr>)"
  using assms
  by (simp add: readLoop_iteration_def ctx_Done_def ctx_tick_def ReadString_line select_send_def
                chan_send_def NewJSONDecodeError_def)

lemma iteration_control:
  assumes "ctx q = None" "reader q = Some rd" "pending rd = body @ newline # rest"
    "newline \<notin> set body" "unmarshal (body @ [newline]) = Inr d" "is_control_request d"
  shows "readLoop_iteration unmarshal q =
           Inr (q\<lparr>reader := Some (rd\<lparr>pending := rest\<rparr>), goroutines := goroutines q @ [d]\<rparr>)"
  using assms
  by (simp add: readLoop_iteration_def ctx_Done_def ctx_tick_def ReadString_line)

lemma iteration_message:
  assumes "ctx q = None" "reader q = Some rd" "pending rd = body @ newline # rest"
    "newline \<notin> set body" "unmarshal (body @ [newline]) = Inr d" "\<not> is_control_request d"
    "\<not> closed (messages q)"
  shows "readLoop_iteration unmarshal q =
           Inr (q\<lparr>reader := Some (rd\<lparr>pending := rest\<rparr>),
                  messages := (messages q)\<lparr>buf := buf (messages q) @ [d]\<rparr>\<rparr>)"
  using assms
  by (simp add: readLoop_iteration_def ctx_Done_def ctx_tick_def ReadString_line select_send_def
                chan_send_def)

lemma iteration_eof:
  assumes "ctx q = None" "reader q = Some rd" "newline \<notin> set (pending rd)" "ending rd = EOF"
  shows "readLoop_iteration unmarshal q = Inl (Return (), q\<lparr>reader := Some (rd\<lparr>pending := []\<rparr>)\<rparr>)"
  using assms
  by (simp add: readLoop_iteration_def ctx_Done_def ctx_tick_def ReadString_end)

lemma iteration_read_error:
  assumes "ctx q = None" "reader q = Some rd" "newline \<notin> set (pending rd)" "ending rd \<noteq> EOF"
    "\<not> closed (errors q)"
  shows "readLoop_iteration unmarshal q =
           Inl (Return (), q\<lparr>reader := Some (rd\<lparr>pending := []\<rparr>),
                  errors := (errors q)\<lparr>buf := buf (errors q) @
                     [CLIConnectionError ''error reading from transport'' (Some (ending rd))]\<rparr>\<rparr>)"
  using assms
  by (simp add: readLoop_iteration_def ctx_Done_def ctx_tick_def ReadString_end select_send_def
                chan_send_def NewCLIConnectionError_def)

text \<open>
  A whole run.  While the context is not cancelled and both channels are open, the loop
  reads every line of the stream, returns at its end, and leaves the conversation
  envelopes on the message channel, the decode errors (and the read error, if the stream
  ends with one) on the error channel and the control requests with their goroutines,
  each in the order read.
\<close>

lemma readLoop_run:
  assumes "ctx q = None" "reader q = Some rd"
    and "pending rd = concat (map (\<lambda>b. b @ [newline]) bodies) @ rest"
    and "\<forall>b\<in>set bodies. newline \<notin> set b" "newline \<notin> set rest"
    and "\<not> closed (messages q)" "\<not> closed (errors q)"
  shows "fst (readLoop unmarshal q) = Return ()
    \<and> buf (messages (snd (readLoop unmarshal q))) = buf (messages q) @
          concat (map (\<lambda>b. case unmarshal (b @ [newline]) of
                               Inl e \<Rightarrow> []
                             | Inr d \<Rightarrow> if is_control_request d then [] else [d]) bodies)
    \<and> buf (errors (snd (readLoop unmarshal q))) = buf (errors q) @
          concat (map (\<lambda>b. case unmarshal (b @ [newline]) of
                               Inl e \<Rightarrow> [JSONDecodeError ''failed to decode message'' (b @ [newline]) (Some e)]
                             | Inr d \<Rightarrow> []) bodies) @
          (if ending rd = EOF then []
           else [CLIConnectionError ''error reading from transport'' (Some (ending rd))])
    \<and> goroutines (snd (readLoop unmarshal q)) = goroutines q @
          concat (map (\<lambda>b. case unmarshal (b @ [newline]) of
                               Inl e \<Rightarrow> []
                             | Inr d \<Rightarrow> if is_control_request d then [d] else []) bodies)
    \<and> \<not> closed (messages (snd (readLoop unmarshal q)))
    \<and> \<not> closed (errors (snd (readLoop unmarshal q)))
    \<and> reader (snd (readLoop unmarshal q)) = Some (rd\<lparr>pending := []\<rparr>)"
  using assms
proof (induction bodies arbitrary: q rd)
  case Nil
  then have no_line: "newline \<notin> set (pending rd)"
    by simp
  show ?case
  proof (cases "ending rd = EOF")
    case True
    with Nil no_line show ?thesis
      by (subst (1 2 3 4 5 6 7) readLoop.simps) (simp add: iteration_eof)
  next
    case False
    with Nil no_line show ?thesis
      by (subst (1 2 3 4 5 6 7) readLoop.simps) (simp add: iteration_read_error)
  qed
next
  case (Cons b bs)
  let ?rest = "concat (map (\<lambda>b. b @ [newline]) bs) @ rest"
  let ?rd = "rd\<lparr>pending := ?rest\<rparr>"
  have line: "pending rd = b @ newline # ?rest" and clean: "newline \<notin> set b"
    using Cons.prems by simp_all
  show ?case
  proof (cases "unmarshal (b @ [newline])")
    case (Inl e)
    let ?q = "q\<lparr>reader := Some ?rd,
                 errors := (errors q)\<lparr>buf := buf (errors q) @
                   [JSONDecodeError ''failed to decode message'' (b @ [newline]) (Some e)]\<rparr>\<rparr>"
    have step: "readLoop unmarshal q = readLoop unmarshal ?q"
      using Cons.prems line clean Inl
      by (subst readLoop.simps) (simp add: iteration_decode_error)
    have "ctx ?q = None" "reader ?q = Some ?rd" "pending ?rd = ?rest"
      "\<forall>b\<in>set bs. newline \<notin> set b" "\<not> closed (messages ?q)" "\<not> closed (errors ?q)"
      using Cons.prems by simp_all
    from Cons.IH [OF this(1-4) Cons.prems(5) this(5,6)] Inl show ?thesis
      by (simp add: step)
  next
    case (Inr d)
    show ?thesis
    proof (cases "is_control_request d")
      case True
      let ?q = "q\<lparr>reader := Some ?rd, goroutines := goroutines q @ [d]\<rparr>"
      have step: "readLoop unmarshal q = readLoop unmarshal ?q"
        using Cons.prems line clean Inr True
        by (subst readLoop.simps) (simp add: iteration_control)
      have "ctx ?q = None" "reader ?q = Some ?rd" "pending ?rd = ?rest"
        "\<forall>b\<in>set bs. newline \<notin> set b" "\<not> closed (messages ?q)" "\<not> closed (errors ?q)"
        using Cons.prems by simp_all
      from Cons.IH [OF this(1-4) Cons.prems(5) this(5,6)] Inr True show ?thesis
        by (simp add: step)
    next
      case False
      let ?q = "q\<lparr>reader := Some ?rd,
                   messages := (messages q)\<lparr>buf := buf (messages q) @ [d]\<rparr>\<rparr>"
      have step: "readLoop unmarshal q = readLoop unmarshal ?q"
        using Cons.prems line clean Inr False
        by (subst readLoop.simps) (simp add: iteration_message)
      have "ctx ?q = None" "reader ?q = Some ?rd" "pending ?rd = ?rest"
        "\<forall>b\<in>set bs. newline \<notin> set b" "\<not> closed (messages ?q)" "\<not> closed (errors ?q)"
        using Cons.prems by simp_all
      from Cons.IH [OF this(1-4) Cons.prems(5) this(5,6)] Inr False show ?thesis
        by (simp add: step)
    qed
  qed
qed

lemma Stop_open:
  "\<not> closed (messages q) \<Longrightarrow> \<not> closed (errors q) \<Longrightarrow>
   Stop q = (Return (), q\<lparr>ctx := Some 0,
                             messages := (messages q)\<lparr>closed := True\<rparr>,
                             errors := (errors q)\<lparr>closed := True\<rparr>\<rparr>)"
  by (simp add: Stop_def chan_close_def cancel_def)

text \<open>
  Whatever happens to the context and the channels, the message channel gets the
  conversation envelopes of some first lines of the stream and nothing else: the loop
  never reorders, repeats or skips one.
\<close>

lemma iteration_exit_keeps_messages:
  "readLoop_iteration unmarshal q = Inl (r, q') \<Longrightarrow> messages q' = messages q"
  by (auto simp: readLoop_iteration_def Let_def
           split: if_splits option.splits prod.splits sum.splits selected.splits)

lemma iteration_at_end:
  assumes "reader q = Some rd" "newline \<notin> set (pending rd)"
  shows "\<exists>r q'. readLoop_iteration unmarshal q = Inl (r, q')"
  using assms
  by (auto simp: readLoop_iteration_def Let_def ReadString_end
           split: if_splits option.splits prod.splits sum.splits selected.splits)

lemma iteration_continues:
  assumes "reader q = Some rd" "pending rd = body @ newline # rest" "newline \<notin> set body"
    and "readLoop_iteration unmarshal q = Inr q'"
  shows "reader q' = Some (rd\<lparr>pending := rest\<rparr>)
    \<and> buf (messages q') = buf (messages q) @
          (case unmarshal (body @ [newline]) of
             Inl e \<Rightarrow> []
           | Inr d \<Rightarrow> if is_control_request d then [] else [d])"
  using assms
  by (auto simp: readLoop_iteration_def Let_def ReadString_line select_send_def chan_send_def
           split: if_splits option.splits prod.splits sum.splits selected.splits)

lemma readLoop_messages_prefix:
  assumes "reader q = Some rd"
    and "pending rd = concat (map (\<lambda>b. b @ [newline]) bodies) @ rest"
    and "\<forall>b\<in>set bodies. newline \<notin> set b" "newline \<notin> set rest"
  shows "\<exists>k\<le>length bodies.
           buf (messages (snd (readLoop unmarshal q))) = buf (messages q) @
             concat (map (\<lambda>b. case unmarshal (b @ [newline]) of
                                  Inl e \<Rightarrow> []
                                | Inr d \<Rightarrow> if is_control_request d then [] else [d])
                       (take k bodies))"
  using assms
proof (induction bodies arbitrary: q rd)
  case Nil
  then have "newline \<notin> set (pending rd)"
    by simp
  from iteration_at_end [OF Nil.prems(1) this, of unmarshal]
  obtain r q' where exit: "readLoop_iteration unmarshal q = Inl (r, q')"
    by blast
  then have "snd (readLoop unmarshal q) = q'"
    by (subst readLoop.simps) simp
  with iteration_exit_keeps_messages [OF exit] show ?case
    by simp
next
  case (Cons b bs)
  let ?rest = "concat (map (\<lambda>b. b @ [newline]) bs) @ rest"
  let ?conv = "\<lambda>b. case unmarshal (b @ [newline]) of
                       Inl e \<Rightarrow> []
                     | Inr d \<Rightarrow> if is_control_request d then [] else [d]"
  have line: "pending rd = b @ newline # ?rest" and clean: "newline \<notin> set b"
    using Cons.prems by simp_all
  show ?case
  proof (cases "readLoop_iteration unmarshal q")
    case (Inl finished)
    obtain r q' where "finished = (r, q')"
      by (cases finished)
    with Inl have exit: "readLoop_iteration unmarshal q = Inl (r, q')"
      by simp
    then have "snd (readLoop unmarshal q) = q'"
      by (subst readLoop.simps) simp
    with iteration_exit_keeps_messages [OF exit]
    have "buf (messages (snd (readLoop unmarshal q))) = buf (messages q) @
            concat (map ?conv (take 0 (b # bs)))"
      by simp
    then show ?thesis
      by blast
  next
    case (Inr q')
    from iteration_continues [OF Cons.prems(1) line clean Inr]
    have rd': "reader q' = Some (rd\<lparr>pending := ?rest\<rparr>)"
      and msgs: "buf (messages q') = buf (messages q) @ ?conv b"
      by simp_all
    have "pending (rd\<lparr>pending := ?rest\<rparr>) = ?rest" "\<forall>b\<in>set bs. newline \<notin> set b"
      using Cons.prems by simp_all
    from Cons.IH [OF rd' this Cons.prems(4)]
    obtain k where k: "k \<le> length bs"
      "buf (messages (snd (readLoop unmarshal q'))) = buf (messages q') @ concat (map ?conv (take k bs))"
      by blast
    have "readLoop unmarshal q = readLoop unmarshal q'"
      using Inr by (subst readLoop.simps) simp
    with k msgs have "Suc k \<le> length (b # bs)"
      "buf (messages (snd (readLoop unmarshal q))) = buf (messages q) @
         concat (map ?conv (take (Suc k) (b # bs)))"
      by simp_all
    then show ?thesis
      by blast
  qed
qed

text \<open>
  C2, as amended.  For every stream of lines, the message channel yields envelopes of
  conversation lines (lines that decode to something other than a control request) in
  the order the lines were read, without a gap; and while the session's context is not
  cancelled (and the channels are open, as they are until \<open>Stop\<close>) it yields exactly
  those envelopes, all of them.
\<close>

theorem message_sink_fifo:
  assumes "reader q = Some rd"
    and "pending rd = concat (map (\<lambda>b. b @ [newline]) bodies) @ rest"
    and "\<forall>b\<in>set bodies. newline \<notin> set b" "newline \<notin> set rest"
  shows "(\<exists>k\<le>length bodies.
            buf (messages (snd (readLoop unmarshal q))) = buf (messages q) @
              concat (map (\<lambda>b. case unmarshal (b @ [newline]) of
                                   Inl e \<Rightarrow> []
                                 | Inr d \<Rightarrow> if is_control_request d then [] else [d])
                        (take k bodies)))
    \<and> (ctx q = None \<and> \<not> closed (messages q) \<and> \<not> closed (errors q) \<longrightarrow>
         fst (readLoop unmarshal q) = Return ()
         \<and> buf (messages (snd (readLoop unmarshal q))) = buf (messages q) @
               concat (map (\<lambda>b. case unmarshal (b @ [newline]) of
                                    Inl e \<Rightarrow> []
                                  | Inr d \<Rightarrow> if is_control_request d then [] else [d]) bodies))"
proof (intro conjI impI)
  show "\<exists>k\<le>length bodies.
          buf (messages (snd (readLoop unmarshal q))) = buf (messages q) @
            concat (map (\<lambda>b. case unmarshal (b @ [newline]) of
                                 Inl e \<Rightarrow> []
                               | Inr d \<Rightarrow> if is_control_request d then [] else [d])
                      (take k bodies))"
    using assms by (rule readLoop_messages_prefix)
next
  assume running: "ctx q = None \<and> \<not> closed (messages q) \<and> \<not> closed (errors q)"
  then have "ctx q = None" "\<not> closed (messages q)" "\<not> closed (errors q)"
    by simp_all
  from readLoop_run [OF this(1) assms this(2,3), of unmarshal]
  show "fst (readLoop unmarshal q) = Return ()"
    and "buf (messages (snd (readLoop unmarshal q))) = buf (messages q) @
           concat (map (\<lambda>b. case unmarshal (b @ [newline]) of
                                Inl e \<Rightarrow> []
                              | Inr d \<Rightarrow> if is_control_request d then [] else [d]) bodies)"
    by simp_all
qed

theorem message_sink_fifo_witness:
  "buf (messages (snd (readLoop
       (\<lambda>l. if l = ''a'' @ [newline] then Inr [(''type'', GString ''assistant'')]
            else if l = ''r'' @ [newline] then Inr [(''type'', GString ''result'')]
            else Inl (StdError ''invalid character''))
       ((NewQuery False None [] [])
          \<lparr>reader := Some \<lparr>pending = ''a'' @ [newline] @ ''r'' @ [newline], ending = EOF\<rparr>\<rparr>))))
   = [[(''type'', GString ''assistant'')], [(''type'', GString ''result'')]]"
  using message_sink_fifo [of
      "(NewQuery False None [] [])
          \<lparr>reader := Some \<lparr>pending = ''a'' @ [newline] @ ''r'' @ [newline], ending = EOF\<rparr>\<rparr>"
      "\<lparr>pending = ''a'' @ [newline] @ ''r'' @ [newline], ending = EOF\<rparr>"
      "[''a'', ''r'']" "[]"
      "\<lambda>l. if l = ''a'' @ [newline] then Inr [(''type'', GString ''assistant'')]
            else if l = ''r'' @ [newline] then Inr [(''type'', GString ''result'')]
            else Inl (StdError ''invalid character'')"]
  by (simp add: NewQuery_def make_chan_def newline_def is_control_request_def as_string_def)

text \<open>
  C2, as stated, fails: the context is cancelled while the loop reads the line, the loop
  has read the line, takes the \<open>ctx.Done()\<close> arm of the send and returns; the message
  channel stays empty.
\<close>

theorem cancelled_message_dropped:
  "readLoop (\<lambda>l. Inr [(''type'', GString ''assistant'')])
     ((NewQuery False None [] [])
        \<lparr>reader := Some \<lparr>pending = ''a'' @ [newline], ending = EOF\<rparr>, ctx := Some 1\<rparr>)
   = (Return (),
      (NewQuery False None [] [])
        \<lparr>reader := Some \<lparr>pending = [], ending = EOF\<rparr>, ctx := Some 0\<rparr>)
   \<and> buf (messages (snd (readLoop (\<lambda>l. Inr [(''type'', GString ''assistant'')])
     ((NewQuery False None [] [])
        \<lparr>reader := Some \<lparr>pending = ''a'' @ [newline], ending = EOF\<rparr>, ctx := Some 1\<rparr>)))) = []"
  by (simp add: readLoop.simps readLoop_iteration_def NewQuery_def make_chan_def newline_def
                ReadString_def ctx_Done_def ctx_tick_def select_send_def is_control_request_def
                as_string_def)

text \<open>
  C5, as amended.  When the read loop meets the end of the stream or a read error while
  the context is not cancelled, it returns; the message channel gets nothing more, the
  error channel gets one \<open>CLIConnectionError\<close> for a read error and nothing for a clean
  end of stream; both channels are still open.  \<open>Stop\<close>, called afterwards, closes both.
\<close>

theorem end_of_stream:
  assumes "ctx q = None" "reader q = Some rd" "newline \<notin> set (pending rd)"
    and "\<not> closed (messages q)" "\<not> closed (errors q)"
  shows "fst (readLoop unmarshal q) = Return ()
    \<and> reader (snd (readLoop unmarshal q)) = Some (rd\<lparr>pending := []\<rparr>)
    \<and> buf (messages (snd (readLoop unmarshal q))) = buf (messages q)
    \<and> buf (errors (snd (readLoop unmarshal q))) = buf (errors q) @
          (if ending rd = EOF then []
           else [CLIConnectionError ''error reading from transport'' (Some (ending rd))])
    \<and> \<not> closed (messages (snd (readLoop unmarshal q)))
    \<and> \<not> closed (errors (snd (readLoop unmarshal q)))
    \<and> fst (Stop (snd (readLoop unmarshal q))) = Return ()
    \<and> closed (messages (snd (Stop (snd (readLoop unmarshal q)))))
    \<and> closed (errors (snd (Stop (snd (readLoop unmarshal q)))))"
proof -
  have "pending rd = concat (map (\<lambda>b. b @ [newline]) []) @ pending rd"
    by simp
  from readLoop_run [OF assms(1,2) this _ assms(3,4,5), of unmarshal]
  have run: "fst (readLoop unmarshal q) = Return ()"
    "reader (snd (readLoop unmarshal q)) = Some (rd\<lparr>pending := []\<rparr>)"
    "buf (messages (snd (readLoop unmarshal q))) = buf (messages q)"
    "buf (errors (snd (readLoop unmarshal q))) = buf (errors q) @
          (if ending rd = EOF then []
           else [CLIConnectionError ''error reading from transport'' (Some (ending rd))])"
    "\<not> closed (messages (snd (readLoop unmarshal q)))"
    "\<not> closed (errors (snd (readLoop unmarshal q)))"
    by simp_all
  from Stop_open [OF run(5,6)] run show ?thesis
    by simp
qed

theorem end_of_stream_witness:
  "buf (errors (snd (readLoop (\<lambda>l. Inl (StdError ''unexpected end of JSON input''))
       ((NewQuery False None [] [])
          \<lparr>reader := Some \<lparr>pending = ''{'', ending = StdError ''read |0: file already closed''\<rparr>\<rparr>))))
   = [CLIConnectionError ''error reading from transport''
        (Some (StdError ''read |0: file already closed''))]
   \<and> \<not> closed (messages (snd (readLoop (\<lambda>l. Inl (StdError ''unexpected end of JSON input''))
       ((NewQuery False None [] [])
          \<lparr>reader := Some \<lparr>pending = ''{'', ending = StdError ''read |0: file already closed''\<rparr>\<rparr>))))"
  using end_of_stream [of
      "(NewQuery False None [] [])
          \<lparr>reader := Some \<lparr>pending = ''{'', ending = StdError ''read |0: file already closed''\<rparr>\<rparr>"
      "\<lparr>pending = ''{'', ending = StdError ''read |0: file already closed''\<rparr>"
      "\<lambda>l. Inl (StdError ''unexpected end of JSON input'')"]
  by (simp add: NewQuery_def make_chan_def newline_def)

text \<open>
  C5, as stated, fails: after the loop has met the end of the stream and returned, both
  channels are open; nothing in the loop closes them.
\<close>

theorem sinks_open_after_eof:
  "fst (readLoop (\<lambda>l. Inl (StdError ''unexpected end of JSON input''))
         ((NewQuery False None [] []) \<lparr>reader := Some \<lparr>pending = [], ending = EOF\<rparr>\<rparr>)) = Return ()
   \<and> \<not> closed (messages (snd (readLoop (\<lambda>l. Inl (StdError ''unexpected end of JSON input''))
         ((NewQuery False None [] []) \<lparr>reader := Some \<lparr>pending = [], ending = EOF\<rparr>\<rparr>))))
   \<and> \<not> closed (errors (snd (readLoop (\<lambda>l. Inl (StdError ''unexpected end of JSON input''))
         ((NewQuery False None [] []) \<lparr>reader := Some \<lparr>pending = [], ending = EOF\<rparr>\<rparr>))))"
  by (simp add: readLoop.simps readLoop_iteration_def NewQuery_def make_chan_def
                ReadString_def ctx_Done_def ctx_tick_def)

text \<open>
  C6, as amended.  While the context is not cancelled, a line that fails to decode puts
  exactly one \<open>JSONDecodeError\<close> carrying the raw line on the error channel, and the loop
  goes on with the rest of the stream from a state that differs in nothing else.
\<close>

theorem decode_error_isolated:
  assumes "ctx q = None" "reader q = Some rd" "pending rd = body @ newline # rest"
    and "newline \<notin> set body" "unmarshal (body @ [newline]) = Inl e" "\<not> closed (errors q)"
  shows "readLoop unmarshal q =
           readLoop unmarshal
             (q\<lparr>reader := Some (rd\<lparr>pending := rest\<rparr>),
                errors := (errors q)\<lparr>buf := buf (errors q) @
                   [JSONDecodeError ''failed to decode message'' (body @ [newline]) (Some e)]\<rparr>\<rparr>)"
  using assms by (subst readLoop.simps) (simp add: iteration_decode_error)

text \<open>Scenario D of the specification: \<open>not-json\<close>, then a line that decodes.\<close>

theorem decode_error_isolated_witness:
  "readLoop (\<lambda>l. if l = ''{}'' @ [newline] then Inr [] else Inl (StdError ''invalid character''))
     ((NewQuery False None [] [])
        \<lparr>reader := Some \<lparr>pending = ''not-json'' @ [newline] @ ''{}'' @ [newline], ending = EOF\<rparr>\<rparr>)
   = (Return (),
      (NewQuery False None [] [])
        \<lparr>reader := Some \<lparr>pending = [], ending = EOF\<rparr>,
          errors := \<lparr>buf = [JSONDecodeError ''failed to decode message'' (''not-json'' @ [newline])
                              (Some (StdError ''invalid character''))], closed = False\<rparr>,
          messages := \<lparr>buf = [[]], closed = False\<rparr>\<rparr>)"
proof -
  let ?u = "\<lambda>l. if l = ''{}'' @ [newline] then Inr [] else Inl (StdError ''invalid character'')"
  let ?rd = "\<lparr>pending = ''not-json'' @ [newline] @ ''{}'' @ [newline], ending = EOF\<rparr>"
  let ?q = "(NewQuery False None [] []) \<lparr>reader := Some ?rd\<rparr>"
  have "readLoop ?u ?q =
          readLoop ?u (?q\<lparr>reader := Some (?rd\<lparr>pending := ''{}'' @ [newline]\<rparr>),
                errors := (errors ?q)\<lparr>buf := buf (errors ?q) @
                   [JSONDecodeError ''failed to decode message'' (''not-json'' @ [newline])
                      (Some (StdError ''invalid character''))]\<rparr>\<rparr>)"
    by (rule decode_error_isolated [where e = "StdError ''invalid character''"])
       (simp_all add: NewQuery_def make_chan_def newline_def)
  also have "\<dots> = (Return (),
      (NewQuery False None [] [])
        \<lparr>reader := Some \<lparr>pending = [], ending = EOF\<rparr>,
          errors := \<lparr>buf = [JSONDecodeError ''failed to decode message'' (''not-json'' @ [newline])
                              (Some (StdError ''invalid character''))], closed = False\<rparr>,
          messages := \<lparr>buf = [[]], closed = False\<rparr>\<rparr>)"
    by (simp add: readLoop.simps readLoop_iteration_def NewQuery_def make_chan_def newline_def
                  ReadString_def ctx_Done_def ctx_tick_def select_send_def chan_send_def
                  is_control_request_def as_string_def)
  finally show ?thesis .
qed

text \<open>
  C6, as stated, fails: the context is cancelled while the loop reads the malformed line;
  no error reaches the error channel, and the loop returns before the next line.
\<close>

theorem cancelled_decode_error_dropped:
  "fst (readLoop (\<lambda>l. if l = ''{}'' @ [newline] then Inr [] else Inl (StdError ''invalid character''))
     ((NewQuery False None [] [])
        \<lparr>reader := Some \<lparr>pending = ''not-json'' @ [newline] @ ''{}'' @ [newline], ending = EOF\<rparr>,
          ctx := Some 1\<rparr>)) = Return ()
   \<and> buf (errors (snd (readLoop
       (\<lambda>l. if l = ''{}'' @ [newline] then Inr [] else Inl (StdError ''invalid character''))
       ((NewQuery False None [] [])
          \<lparr>reader := Some \<lparr>pending = ''not-json'' @ [newline] @ ''{}'' @ [newline], ending = EOF\<rparr>,
            ctx := Some 1\<rparr>)))) = []
   \<and> buf (messages (snd (readLoop
       (\<lambda>l. if l = ''{}'' @ [newline] then Inr [] else Inl (StdError ''invalid character''))
       ((NewQuery False None [] [])
          \<lparr>reader := Some \<lparr>pending = ''not-json'' @ [newline] @ ''{}'' @ [newline], ending = EOF\<rparr>,
            ctx := Some 1\<rparr>)))) = []
   \<and> reader (snd (readLoop
       (\<lambda>l. if l = ''{}'' @ [newline] then Inr [] else Inl (StdError ''invalid character''))
       ((NewQuery False None [] [])
          \<lparr>reader := Some \<lparr>pending = ''not-json'' @ [newline] @ ''{}'' @ [newline], ending = EOF\<rparr>,
            ctx := Some 1\<rparr>))) = Some \<lparr>pending = ''{}'' @ [newline], ending = EOF\<rparr>"
  by (simp add: readLoop.simps readLoop_iteration_def NewQuery_def make_chan_def newline_def
                ReadString_def ctx_Done_def ctx_tick_def select_send_def)

text \<open>
  C7.  Claim: an empty input line is skipped and leaves nothing on either channel.  The
  code reports it: the line the loop gets is the newline itself, not the empty string, so
  it goes to the decoder, and when the decoder rejects it (as \<open>json.Unmarshal\<close> does,
  with "unexpected end of JSON input") a \<open>JSONDecodeError\<close> is put on the error channel.
\<close>

theorem blank_line_reported:
  assumes "ctx q = None" "reader q = Some rd" "pending rd = newline # rest"
    and "unmarshal [newline] = Inl e" "\<not> closed (errors q)"
  shows "readLoop unmarshal q =
           readLoop unmarshal
             (q\<lparr>reader := Some (rd\<lparr>pending := rest\<rparr>),
                errors := (errors q)\<lparr>buf := buf (errors q) @
                   [JSONDecodeError ''failed to decode message'' [newline] (Some e)]\<rparr>\<rparr>)"
  using assms iteration_decode_error [of q rd "[]" rest unmarshal e]
  by (subst readLoop.simps) simp

theorem blank_line_reported_witness:
  "readLoop (\<lambda>l. if l = ''{}'' @ [newline] then Inr []
                  else Inl (StdError ''unexpected end of JSON input''))
     ((NewQuery False None [] []) \<lparr>reader := Some \<lparr>pending = [newline], ending = EOF\<rparr>\<rparr>)
   = (Return (),
      (NewQuery False None [] [])
        \<lparr>reader := Some \<lparr>pending = [], ending = EOF\<rparr>,
          errors := \<lparr>buf = [JSONDecodeError ''failed to decode message'' [newline]
                              (Some (StdError ''unexpected end of JSON input''))], closed = False\<rparr>\<rparr>)"
proof -
  let ?u = "\<lambda>l. if l = ''{}'' @ [newline] then Inr []
                  else Inl (StdError ''unexpected end of JSON input'')"
  let ?rd = "\<lparr>pending = [newline], ending = EOF\<rparr>"
  let ?q = "(NewQuery False None [] []) \<lparr>reader := Some ?rd\<rparr>"
  have "readLoop ?u ?q =
          readLoop ?u (?q\<lparr>reader := Some (?rd\<lparr>pending := []\<rparr>),
                errors := (errors ?q)\<lparr>buf := buf (errors ?q) @
                   [JSONDecodeError ''failed to decode message'' [newline]
                      (Some (StdError ''unexpected end of JSON input''))]\<rparr>\<rparr>)"
    by (rule blank_line_reported [where e = "StdError ''unexpected end of JSON input''"])
       (simp_all add: NewQuery_def make_chan_def newline_def)
  also have "\<dots> = (Return (),
      (NewQuery False None [] [])
        \<lparr>reader := Some \<lparr>pending = [], ending = EOF\<rparr>,
          errors := \<lparr>buf = [JSONDecodeError ''failed to decode message'' [newline]
                              (Some (StdError ''unexpected end of JSON input''))], closed = False\<rparr>\<rparr>)"
    by (simp add: readLoop.simps readLoop_iteration_def NewQuery_def make_chan_def newline_def
                  ReadString_def ctx_Done_def ctx_tick_def)
  finally show ?thesis .
qed

section \<open>Properties of Close\<close>

lemma Close_closed: "\<not> connected t \<Longrightarrow> Close t os = (None, t, os)"
  by (simp add: Close_def)

lemma Close_result:
  "Close t os = (err, t', os') \<Longrightarrow> err = None \<and> \<not> connected t'"
  by (auto simp: Close_def Let_def split: if_splits)

lemma ClaudeSDKClient_Close_closed:
  "\<not> c_connected c \<Longrightarrow> ClaudeSDKClient_Close c os = (Return None, c, os)"
  by (simp add: ClaudeSDKClient_Close_def)

lemma ClaudeSDKClient_Close_result:
  "ClaudeSDKClient_Close c os = (r, c', os') \<Longrightarrow> \<not> c_connected c'"
  by (auto simp: ClaudeSDKClient_Close_def Let_def
           split: if_splits option.splits prod.splits outcome.splits)

text \<open>
  C8.  Closing a transport or a client that is already closed returns no error and
  changes neither its state nor the operating system's (no pipe is closed, no process
  killed, no channel closed); and from every state, a second close right after a first
  one returns no error and leaves the state and the trace as the first one left them.
\<close>

theorem close_idempotent:
  "Close (t\<lparr>connected := False\<rparr>) os = (None, t\<lparr>connected := False\<rparr>, os)
   \<and> (case Close t os of (err, t', os') \<Rightarrow> Close t' os' = (None, t', os'))
   \<and> ClaudeSDKClient_Close (c\<lparr>c_connected := False\<rparr>) os = (Return None, c\<lparr>c_connected := False\<rparr>, os)
   \<and> (case ClaudeSDKClient_Close c os of
        (r, c', os') \<Rightarrow> ClaudeSDKClient_Close c' os' = (Return None, c', os'))"
proof -
  have "Close t' os' = (None, t', os')" if "Close t os = (err, t', os')" for err t' os'
    using Close_result [OF that] by (simp add: Close_closed)
  moreover have "ClaudeSDKClient_Close c' os' = (Return None, c', os')"
    if "ClaudeSDKClient_Close c os = (r, c', os')" for r c' os'
    using ClaudeSDKClient_Close_result [OF that] by (simp add: ClaudeSDKClient_Close_closed)
  ultimately show ?thesis
    by (auto simp: Close_closed ClaudeSDKClient_Close_closed split: prod.splits)
qed

theorem close_idempotent_witness:
  "Close \<lparr>prompt = ChannelPrompt, cliPath = ''/usr/local/bin/claude'', cmd = Some \<lparr>cmd_started = True\<rparr>,
          stdin = Some 3, stdout = Some 4, stderr = Some 5,
          t_reader = Some \<lparr>pending = [], ending = EOF\<rparr>, connected = True, exitError = None\<rparr> []
   = (None,
      \<lparr>prompt = ChannelPrompt, cliPath = ''/usr/local/bin/claude'', cmd = None, stdin = None, stdout = None, stderr = None,
       t_reader = Some \<lparr>pending = [], ending = EOF\<rparr>, connected = False, exitError = None\<rparr>,
      [PipeClose 3, PipeClose 4, PipeClose 5, ProcessKill, ProcessWait])
   \<and> Close \<lparr>prompt = ChannelPrompt, cliPath = ''/usr/local/bin/claude'', cmd = None, stdin = None, stdout = None, stderr = None,
       t_reader = Some \<lparr>pending = [], ending = EOF\<rparr>, connected = False, exitError = None\<rparr>
      [PipeClose 3, PipeClose 4, PipeClose 5, ProcessKill, ProcessWait]
   = (None,
      \<lparr>prompt = ChannelPrompt, cliPath = ''/usr/local/bin/claude'', cmd = None, stdin = None, stdout = None, stderr = None,
       t_reader = Some \<lparr>pending = [], ending = EOF\<rparr>, connected = False, exitError = None\<rparr>,
      [PipeClose 3, PipeClose 4, PipeClose 5, ProcessKill, ProcessWait])
   \<and> (case ClaudeSDKClient_Close
             \<lparr>c_transport = Some \<lparr>prompt = ChannelPrompt, cliPath = ''/usr/local/bin/claude'', cmd = Some \<lparr>cmd_started = True\<rparr>,
                  stdin = Some 3, stdout = Some 4, stderr = Some 5,
                  t_reader = Some \<lparr>pending = [], ending = EOF\<rparr>, connected = True, exitError = None\<rparr>,
              c_query = Some (NewQuery True None [] []), c_connected = True,
              c_messages = make_chan, c_errors = make_chan, c_ctx = None\<rparr> [] of
         (r, c', os') \<Rightarrow>
           r = Return None \<and> os' = [PipeClose 3, PipeClose 4, PipeClose 5, ProcessKill, ProcessWait]
           \<and> ClaudeSDKClient_Close c' os' = (Return None, c', os'))"
  using close_idempotent [of
      "\<lparr>prompt = ChannelPrompt, cliPath = ''/usr/local/bin/claude'', cmd = Some \<lparr>cmd_started = True\<rparr>,
          stdin = Some 3, stdout = Some 4, stderr = Some 5,
          t_reader = Some \<lparr>pending = [], ending = EOF\<rparr>, connected = True, exitError = None\<rparr>"
      "[]"
      "\<lparr>c_transport = Some \<lparr>prompt = ChannelPrompt, cliPath = ''/usr/local/bin/claude'', cmd = Some \<lparr>cmd_started = True\<rparr>,
                  stdin = Some 3, stdout = Some 4, stderr = Some 5,
                  t_reader = Some \<lparr>pending = [], ending = EOF\<rparr>, connected = True, exitError = None\<rparr>,
        c_query = Some (NewQuery True None [] []), c_connected = True,
        c_messages = make_chan, c_errors = make_chan, c_ctx = None\<rparr>"]
  by (simp add: Close_def close_pipe_def ClaudeSDKClient_Close_def Stop_def chan_close_def
                NewQuery_def make_chan_def cancel_def)

section \<open>Properties of the one-shot Query function\<close>

text \<open>
  \<open>Query\<close> itself returns a nil error in every case.  \<open>Start\<close> and \<open>Initialize\<close>
  never return an error, and after \<open>Connect\<close> has returned nil for a transport that was
  not connected before, the transport has its reader, so that \<open>Start\<close> does not panic.
\<close>

lemma Query_fn_nil_error: "snd (Query_fn sys p ParseMessage events) = None"
  by (simp add: Query_fn_def)

lemma Start_no_error: "fst (Start r q) \<noteq> Return (Some err)"
  by (simp add: Start_def split: option.splits)

lemma Initialize_no_error: "fst (Initialize q) = None"
  by (simp add: Initialize_def)

lemma Connect_sets_reader:
  "\<not> connected t \<Longrightarrow> Connect sys t os = Returns (None, t', os') \<Longrightarrow> t_reader t' \<noteq> None"
  by (auto simp: Connect_def deferred_Unlock_def Let_def monitorExit_def Write_def
           split: if_splits sum.splits option.splits prompt.splits prod.splits exit_status.splits)

text \<open>
  Every error that \<open>Connect\<close> returns reaches the channel as one \<open>SystemMessage\<close> of
  subtype \<open>error\<close> carrying the error's text, and the channel is closed after it.
\<close>

lemma returned_connect_error_delivered:
  assumes "Connect sys (NewSubprocessTransport sys p []) [] = Returns (Some err, t, os)"
  shows "Query_fn sys p ParseMessage events =
           (Returns \<lparr>buf = [SystemMessage ''error'' [(''error'', GString (Error err))]],
                     closed = True\<rparr>, None)"
  using assms by (simp add: Query_fn_def Query_goroutine_def error_message_def)

text \<open>
  The path of \<open>Connect\<close> that does not return: the pipes are made, the command starts,
  the prompt is a string that is not empty, and writing it fails (the child has exited
  and \<open>monitorExit\<close> has marked the transport as not connected, or the write itself
  fails).  \<open>Connect\<close> has unlocked the mutex before the write and returns the error
  without locking it again, so the deferred unlock aborts the process.
\<close>

lemma Connect_prompt_write_failure:
  assumes "\<not> connected t" "cliPath t \<noteq> []"
    and "StdinPipe sys = Inr h0" "StdoutPipe sys = Inr h1" "StderrPipe sys = Inr h2"
    and "cmd_Start sys = None" "prompt t = StringPrompt str" "str \<noteq> []"
    and "cmd_Wait sys \<noteq> None \<or> stdin_Write sys \<noteq> None"
  shows "Connect sys t os = Crashed ''fatal error: sync: Unlock of unlocked RWMutex''"
  using assms
  by (auto simp: Connect_def deferred_Unlock_def Let_def monitorExit_def Write_def
           split: option.splits prod.splits exit_status.splits)

text \<open>
  C10.  Claim: \<open>Query\<close> returns a nil error with the channel, and every connection
  failure is delivered on the channel as a \<open>SystemMessage\<close> of subtype \<open>error\<close>, after
  which the channel is closed.  The code returns the nil error, but one connection failure
  is not delivered: the command \<open>claude\<close> is found and started, and writing the prompt
  \<open>What is 2+2?\<close> to its standard input fails with a broken pipe.  \<open>Connect\<close> then does
  not return; the process is aborted by the runtime, nothing is sent on the channel and
  the channel is not closed.
\<close>

theorem Query_prompt_write_failure:
  "Query_fn
     \<lparr>LookPath = (\<lambda>name. if name = ''claude'' then Some ''/usr/local/bin/claude'' else None),
      Getenv = (\<lambda>name. []), Stat = (\<lambda>path. False), GOOS = ''linux'', Join = concat,
      StdinPipe = Inr 3, StdoutPipe = Inr 4, StderrPipe = Inr 5,
      stdout_bytes = \<lparr>pending = [], ending = EOF\<rparr>,
      cmd_Start = None, cmd_Wait = None,
      stdin_Write = Some (StdError ''write |1: broken pipe'')\<rparr>
     (StringPrompt ''What is 2+2?'')
     (\<lambda>data. Inl (StdError ''message missing type field'')) []
   = (Crashed ''fatal error: sync: Unlock of unlocked RWMutex'', None)"
  by (simp add: Query_fn_def Query_goroutine_def NewSubprocessTransport_def findCLI_def
                Connect_def Write_def Close_def close_pipe_def deferred_Unlock_def
                NewCLIConnectionError_def)

text \<open>
  A connection failure that is delivered: the command cannot be started, \<open>Connect\<close>
  returns the error, and the channel carries its text and is closed.
\<close>

lemma Query_start_failure_delivered:
  "Query_fn
     \<lparr>LookPath = (\<lambda>name. if name = ''claude'' then Some ''/usr/local/bin/claude'' else None),
      Getenv = (\<lambda>name. []), Stat = (\<lambda>path. False), GOOS = ''linux'', Join = concat,
      StdinPipe = Inr 3, StdoutPipe = Inr 4, StderrPipe = Inr 5,
      stdout_bytes = \<lparr>pending = [], ending = EOF\<rparr>,
      cmd_Start = Some (StdError ''exec format error''), cmd_Wait = None,
      stdin_Write = None\<rparr>
     (StringPrompt ''What is 2+2?'')
     (\<lambda>data. Inl (StdError ''message missing type field'')) []
   = (Returns \<lparr>buf = [SystemMessage ''error''
                       [(''error'', GString ''failed to start CLI process: exec format error'')]],
               closed = True\<rparr>, None)"
  by (simp add: Query_fn_def Query_goroutine_def NewSubprocessTransport_def findCLI_def
                Connect_def deferred_Unlock_def NewCLIConnectionError_def error_message_def)

section \<open>Properties of the outbound request ids\<close>

lemma below_ten: "(d::nat) < 10 \<Longrightarrow> d \<in> {0, 1, 2, 3, 4, 5, 6, 7, 8, 9}"
  by auto

lemma index_digit_char:
  "d < 10 \<Longrightarrow> length (takeWhile (\<lambda>x. x \<noteq> digit_char d) ''0123456789'') = d"
  using below_ten [of d] by (auto simp: digit_char_def)

lemma digit_char_not_minus: "d < 10 \<Longrightarrow> digit_char d \<noteq> CHR ''-''"
  using below_ten [of d] by (auto simp: digit_char_def)

text \<open>Reading the digits back gives the number, so the formatting loses nothing.\<close>

lemma decimal_value_digits:
  "foldl (\<lambda>a c. 10 * a + length (takeWhile (\<lambda>x. x \<noteq> c) ''0123456789'')) 0 (digits n) = n"
proof (induction n rule: digits.induct)
  case (1 n)
  show ?case
  proof (cases "n < 10")
    case True
    then show ?thesis
      by (subst digits.simps) (simp add: index_digit_char del: takeWhile.simps)
  next
    case False
    with 1 have "foldl (\<lambda>a c. 10 * a + length (takeWhile (\<lambda>x. x \<noteq> c) ''0123456789'')) 0
                   (digits (n div 10)) = n div 10"
      by simp
    with False show ?thesis
      by (subst digits.simps) (simp add: index_digit_char del: takeWhile.simps)
  qed
qed

lemma digits_inj: "digits m = digits n \<Longrightarrow> m = n"
  by (metis decimal_value_digits)

lemma digits_hd_not_minus: "digits n \<noteq> [] \<and> hd (digits n) \<noteq> CHR ''-''"
proof (induction n rule: digits.induct)
  case (1 n)
  show ?case
  proof (cases "n < 10")
    case True
    then show ?thesis
      by (subst (1 2) digits.simps) (simp add: digit_char_not_minus)
  next
    case False
    with 1 have "digits (n div 10) \<noteq> [] \<and> hd (digits (n div 10)) \<noteq> CHR ''-''"
      by simp
    with False show ?thesis
      by (subst (1 2) digits.simps) simp
  qed
qed

lemma Sprintf_d_inj: "Sprintf_d v = Sprintf_d w \<Longrightarrow> v = w"
proof -
  assume eq: "Sprintf_d v = Sprintf_d w"
  have neg: "(sint v < 0) = (sint w < 0)"
    using eq digits_hd_not_minus [of "nat (sint v)"] digits_hd_not_minus [of "nat (sint w)"]
    by (auto simp: Sprintf_d_def split: if_splits) (metis list.sel(1))+
  have "sint v = sint w"
    using eq neg by (auto simp: Sprintf_d_def split: if_splits dest!: digits_inj)
  then show ?thesis
    by (rule signed_word_eqI)
qed

lemma request_ids_eq:
  "request_ids n c = map (\<lambda>i. ''req_'' @ Sprintf_d (c + 1 + of_nat i)) [0..<n]"
proof (induction n arbitrary: c)
  case 0
  show ?case by simp
next
  case (Suc n)
  have "request_ids (Suc n) c = (''req_'' @ Sprintf_d (c + 1)) # request_ids n (c + 1)"
    by (simp add: generateRequestID_def Let_def)
  also have "request_ids n (c + 1) = map (\<lambda>i. ''req_'' @ Sprintf_d (c + 1 + 1 + of_nat i)) [0..<n]"
    by (rule Suc)
  also have "(''req_'' @ Sprintf_d (c + 1)) # map (\<lambda>i. ''req_'' @ Sprintf_d (c + 1 + 1 + of_nat i)) [0..<n]
      = map (\<lambda>i. ''req_'' @ Sprintf_d (c + 1 + of_nat i)) [0..<Suc n]"
    by (simp only: map_upt_Suc) (simp add: ac_simps)
  finally show ?case .
qed

lemma of_nat_inj64:
  "i < 2 ^ 64 \<Longrightarrow> j < 2 ^ 64 \<Longrightarrow> (of_nat i :: 64 word) = of_nat j \<Longrightarrow> i = j"
  by (simp add: word_of_nat_eq_iff take_bit_nat_eq_self)

text \<open>
  C9, as amended.  Any run of at most \<open>2 ^ 64\<close> invocations in a row returns pairwise
  distinct request ids, from whatever value the counter starts at.
\<close>

theorem request_ids_distinct:
  assumes "n \<le> 2 ^ 64"
  shows "distinct (request_ids n c)"
proof -
  have "inj_on (\<lambda>i. ''req_'' @ Sprintf_d (c + 1 + of_nat i)) (set [0..<n])"
  proof (rule inj_onI)
    fix i j
    assume "i \<in> set [0..<n]" "j \<in> set [0..<n]"
      and eq: "''req_'' @ Sprintf_d (c + 1 + of_nat i) = ''req_'' @ Sprintf_d (c + 1 + of_nat j)"
    then have "i < 2 ^ 64" "j < 2 ^ 64"
      using assms by auto
    moreover from eq have "(of_nat i :: 64 word) = of_nat j"
      by (auto dest!: Sprintf_d_inj)
    ultimately show "i = j"
      by (rule of_nat_inj64)
  qed
  then show ?thesis
    by (simp add: request_ids_eq distinct_map)
qed

theorem request_ids_distinct_witness:
  "(3::nat) \<le> 2 ^ 64 \<and> distinct (request_ids 3 0)
   \<and> request_ids 3 0 = [''req_1'', ''req_2'', ''req_3'']"
proof -
  have small: "(3::nat) \<le> 2 ^ 64"
    by simp
  have "request_ids 3 0 = [''req_1'', ''req_2'', ''req_3'']"
    by code_simp
  with small request_ids_distinct [OF small, of 0] show ?thesis
    by simp
qed

text \<open>
  C9, as stated, fails: the counter wraps around, so the first and the
  \<open>(2 ^ 64 + 1)\<close>-th invocation return the same id.
\<close>

theorem request_ids_repeat: "\<not> distinct (request_ids (2 ^ 64 + 1) 0)"
proof -
  let ?f = "\<lambda>i. ''req_'' @ Sprintf_d ((0::64 word) + 1 + of_nat i)"
  have z: "(of_nat (2 ^ 64) :: 64 word) = 0"
    by simp
  have "?f 0 = ?f (2 ^ 64)"
    by (simp only: z) simp
  moreover have "(0::nat) \<in> set [0..<2 ^ 64 + 1]" "(2 ^ 64 :: nat) \<in> set [0..<2 ^ 64 + 1]"
    by simp_all
  moreover have "(0::nat) \<noteq> 2 ^ 64"
    by simp
  ultimately have "\<not> inj_on ?f (set [0..<2 ^ 64 + 1])"
    unfolding inj_on_def by blast
  then show ?thesis
    by (simp only: request_ids_eq distinct_map simp_thms)
qed

end
